theory Spec2Isabelle
  imports Complex_Main "HOL-Library.Char_ord" "HOL-Library.List_Lexorder"
begin

section \<open>JavaScript values\<close>

text \<open>
  Tool arguments are mappings from strings to scalars; tool results and request inputs are
  JSON-like values. Numbers are modelled as integers (ids, timestamps and counts are
  integers in the safe range). A string is a list of characters; list order on strings
  is the lexicographic order on code units, which is what \<^verbatim>\<open>Array.prototype.sort\<close> uses
  by default.
\<close>

datatype scalar = Undefined | Null | Bool bool | Num int | Str string

datatype jsval = Prim scalar | Arr "jsval list" | Obj "(string \<times> jsval) list"

text \<open>Thrown values. All of them are \<^verbatim>\<open>Error\<close> objects, so \<^verbatim>\<open>error.message\<close> is defined.\<close>

datatype exn = Error string | TypeError string | SyntaxError string

fun message :: "exn \<Rightarrow> string" where
  "message (Error m) = m"
| "message (TypeError m) = m"
| "message (SyntaxError m) = m"

text \<open>
  An object as the list of its own enumerable properties, in insertion order, with unique
  keys. (JavaScript lists integer-like keys first; the one use of \<^verbatim>\<open>Object.keys\<close> here
  sorts the list at once.)
\<close>

type_synonym args = "(string \<times> scalar) list"

definition Object_keys :: "(string \<times> 'v) list \<Rightarrow> string list" where
  "Object_keys obj = map fst obj"

text \<open>\<^verbatim>\<open>obj[key]\<close> on an object of scalars: \<^verbatim>\<open>undefined\<close> when the key is missing.\<close>

definition arg_value :: "args \<Rightarrow> string \<Rightarrow> scalar" where
  "arg_value obj k = (case map_of obj k of None \<Rightarrow> Undefined | Some v \<Rightarrow> v)"

text \<open>
  \<^verbatim>\<open>obj[key] = v\<close>: an existing property keeps its position, a new one is appended.
\<close>

fun set_prop :: "(string \<times> 'v) list \<Rightarrow> string \<Rightarrow> 'v \<Rightarrow> (string \<times> 'v) list" where
  "set_prop [] k v = [(k, v)]"
| "set_prop ((k', v') # rest) k v =
     (if k' = k then (k, v) # rest else (k', v') # set_prop rest k v)"

text \<open>Truthiness (\<^verbatim>\<open>ToBoolean\<close>).\<close>

fun truthy_scalar :: "scalar \<Rightarrow> bool" where
  "truthy_scalar Undefined = False"
| "truthy_scalar Null = False"
| "truthy_scalar (Bool b) = b"
| "truthy_scalar (Num n) = (n \<noteq> 0)"
| "truthy_scalar (Str s) = (s \<noteq> [])"

fun truthy :: "jsval \<Rightarrow> bool" where
  "truthy (Prim p) = truthy_scalar p"
| "truthy (Arr _) = True"
| "truthy (Obj _) = True"

text \<open>Decimal digits of a natural number, most significant first.\<close>

fun digits :: "nat \<Rightarrow> string" where
  "digits n = (if n < 10 then [''0123456789'' ! n]
               else digits (n div 10) @ [''0123456789'' ! (n mod 10)])"

declare digits.simps [simp del]

definition int_to_string :: "int \<Rightarrow> string" where
  "int_to_string i = (if i < 0 then CHR ''-'' # digits (nat (- i)) else digits (nat i))"

text \<open>\<^verbatim>\<open>ToString\<close> on a scalar, as a template literal applies it.\<close>

fun scalar_to_string :: "scalar \<Rightarrow> string" where
  "scalar_to_string Undefined = ''undefined''"
| "scalar_to_string Null = ''null''"
| "scalar_to_string (Bool b) = (if b then ''true'' else ''false'')"
| "scalar_to_string (Num n) = int_to_string n"
| "scalar_to_string (Str s) = s"

text \<open>\<^verbatim>\<open>Array.prototype.join\<close> on strings.\<close>

fun join :: "string \<Rightarrow> string list \<Rightarrow> string" where
  "join sep [] = []"
| "join sep [x] = x"
| "join sep (x # y # ys) = x @ sep @ join sep (y # ys)"

text \<open>
  \<^verbatim>\<open>ToString\<close> on any value. An array joins its elements with a comma, \<^verbatim>\<open>null\<close> and
  \<^verbatim>\<open>undefined\<close> elements giving the empty string. A plain data object gives
  \<^verbatim>\<open>[object Object]\<close>, unless it has an own property \<^verbatim>\<open>toString\<close>, which is data and
  not callable: the conversion to a primitive then fails.
\<close>

fun to_string :: "jsval \<Rightarrow> exn + string"
  and elems_to_strings :: "jsval list \<Rightarrow> exn + string list" where
  "to_string (Prim p) = Inr (scalar_to_string p)"
| "to_string (Arr xs) = map_sum id (join '','') (elems_to_strings xs)"
| "to_string (Obj kvs) =
     (if ''toString'' \<in> set (map fst kvs)
      then Inl (TypeError ''Cannot convert object to primitive value'')
      else Inr ''[object Object]'')"
| "elems_to_strings [] = Inr []"
| "elems_to_strings (Prim Undefined # xs) = map_sum id ((#) []) (elems_to_strings xs)"
| "elems_to_strings (Prim Null # xs) = map_sum id ((#) []) (elems_to_strings xs)"
| "elems_to_strings (x # xs) =
     (case to_string x of
        Inl e \<Rightarrow> Inl e
      | Inr s \<Rightarrow> map_sum id ((#) s) (elems_to_strings xs))"

text \<open>
  The method call \<^verbatim>\<open>v.toString()\<close>: a \<^verbatim>\<open>TypeError\<close> on \<^verbatim>\<open>null\<close> and \<^verbatim>\<open>undefined\<close>,
  and on an object whose own \<^verbatim>\<open>toString\<close> property shadows the inherited method.
\<close>

fun toString :: "jsval \<Rightarrow> exn + string" where
  "toString (Prim Undefined) = Inl (TypeError ''Cannot read properties of undefined'')"
| "toString (Prim Null) = Inl (TypeError ''Cannot read properties of null'')"
| "toString (Obj kvs) =
     (if ''toString'' \<in> set (map fst kvs)
      then Inl (TypeError ''toString is not a function'')
      else Inr ''[object Object]'')"
| "toString v = to_string v"

text \<open>
  Property read \<^verbatim>\<open>v.k\<close> on a value that is not \<^verbatim>\<open>null\<close> or \<^verbatim>\<open>undefined\<close>: a data
  object answers from its own properties. None of the property names this program reads
  (it never reads \<^verbatim>\<open>length\<close> this way) is defined on arrays, strings, numbers or booleans,
  or inherited by objects.
\<close>

fun get_prop :: "jsval \<Rightarrow> string \<Rightarrow> jsval" where
  "get_prop (Obj kvs) k = (case map_of kvs k of None \<Rightarrow> Prim Undefined | Some v \<Rightarrow> v)"
| "get_prop _ k = Prim Undefined"

section \<open>String operations\<close>

text \<open>
  \<^verbatim>\<open>toLowerCase\<close> on the ASCII letters, \<^verbatim>\<open>includes\<close> (here \<open>str_includes\<close>),
  \<^verbatim>\<open>startsWith\<close>, \<^verbatim>\<open>replace\<close> with a string pattern (the first occurrence only),
  \<^verbatim>\<open>split\<close> on a separator character and \<^verbatim>\<open>trim\<close>.
\<close>

definition lower_char :: "char \<Rightarrow> char" where
  "lower_char c =
     (case map_of (zip ''ABCDEFGHIJKLMNOPQRSTUVWXYZ'' ''abcdefghijklmnopqrstuvwxyz'') c of
        None \<Rightarrow> c
      | Some l \<Rightarrow> l)"

definition toLowerCase :: "string \<Rightarrow> string" where
  "toLowerCase s = map lower_char s"

definition startsWith :: "string \<Rightarrow> string \<Rightarrow> bool" where
  "startsWith s p = (take (length p) s = p)"

fun str_includes :: "string \<Rightarrow> string \<Rightarrow> bool" where
  "str_includes [] p = (p = [])"
| "str_includes (c # cs) p = (startsWith (c # cs) p \<or> str_includes cs p)"


fun split :: "string \<Rightarrow> char \<Rightarrow> string list" where
  "split [] sep = [[]]"
| "split (c # cs) sep =
     (if c = sep then [] # split cs sep
      else (case split cs sep of [] \<Rightarrow> [[c]] | w # ws \<Rightarrow> (c # w) # ws))"

definition is_space :: "char \<Rightarrow> bool" where
  "is_space c = (c \<in> set [CHR '' '', CHR 0x09, CHR 0x0A, CHR 0x0B, CHR 0x0C, CHR 0x0D])"

definition trim :: "string \<Rightarrow> string" where
  "trim s = rev (dropWhile is_space (rev (dropWhile is_space s)))"

section \<open>CacheManager\<close>

text \<open>
  The hot tier (KV) holds \<^verbatim>\<open>{payload, timestamp}\<close>, the cold tier (R2) holds
  \<^verbatim>\<open>{payload, timestamp, tool, args}\<close>. Both are written with \<^verbatim>\<open>JSON.stringify\<close> and
  read back parsed; the stores are modelled as holding the parsed entries. A tier binding
  may be missing (\<^verbatim>\<open>env.SPORTS_CACHE\<close> undefined), and a bound tier may fail at run time:
  \<open>get_throws\<close> and \<open>put_throws\<close> say whether its reads and writes reject.
  Timestamps are in milliseconds (\<^verbatim>\<open>Date.now()\<close>), TTLs in seconds. The clock is read once
  per cache operation and passed in as \<open>now\<close>.
\<close>

record hot_entry =
  payload :: jsval
  timestamp :: int

record cold_entry = hot_entry +
  cold_tool :: string
  cold_args :: args

record 'e tier =
  contents :: "string \<rightharpoonup> 'e"
  get_throws :: bool
  put_throws :: bool

record CacheManager =
  kv :: "hot_entry tier option"
  r2 :: "cold_entry tier option"
  hotTTL :: int
  coldTTL :: int

datatype tier_name = hot | cold

record cache_hit =
  data :: jsval
  source :: tier_name
  age :: int

definition generateKey :: "string \<Rightarrow> args \<Rightarrow> string" where
  "generateKey tool_name as =
     (let keys = sort (Object_keys as);
          sortedPairs = join ''|'' (map (\<lambda>key. key @ '':'' @ scalar_to_string (arg_value as key)) keys)
      in ''sports:'' @ tool_name @ '':'' @ sortedPairs)"

definition isValid :: "int \<Rightarrow> int \<Rightarrow> int \<Rightarrow> bool" where
  "isValid now ts ttlSeconds = (real_of_int (now - ts) / 1000 < real_of_int ttlSeconds)"

text \<open>\<^verbatim>\<open>tier.get(key)\<close> and \<^verbatim>\<open>tier.put(key, value)\<close> on a bound tier.\<close>

definition tier_get :: "'e tier \<Rightarrow> string \<Rightarrow> exn + 'e option" where
  "tier_get t key = (if get_throws t then Inl (Error ''tier get failed'') else Inr (contents t key))"

definition tier_put :: "'e tier \<Rightarrow> string \<Rightarrow> 'e \<Rightarrow> exn + 'e tier" where
  "tier_put t key v =
     (if put_throws t then Inl (Error ''tier put failed'')
      else Inr (t\<lparr>contents := (contents t)(key \<mapsto> v)\<rparr>))"

definition setHot :: "CacheManager \<Rightarrow> int \<Rightarrow> string \<Rightarrow> jsval \<Rightarrow> exn + CacheManager" where
  "setHot cm now key d =
     (case kv cm of
        None \<Rightarrow> Inr cm
      | Some t \<Rightarrow>
          (case tier_put t key \<lparr>payload = d, timestamp = now\<rparr> of
             Inl e \<Rightarrow> Inl e
           | Inr t' \<Rightarrow> Inr (cm\<lparr>kv := Some t'\<rparr>)))"

definition setCold :: "CacheManager \<Rightarrow> string \<Rightarrow> cold_entry \<Rightarrow> exn + CacheManager" where
  "setCold cm key entry =
     (case r2 cm of
        None \<Rightarrow> Inr cm
      | Some t \<Rightarrow>
          (case tier_put t key entry of
             Inl e \<Rightarrow> Inl e
           | Inr t' \<Rightarrow> Inr (cm\<lparr>r2 := Some t'\<rparr>)))"

text \<open>
  The \<^verbatim>\<open>try\<close> block of \<^verbatim>\<open>get\<close>. \<^verbatim>\<open>this.kv?.get(key)\<close> is \<^verbatim>\<open>undefined\<close> on a missing
  binding. A stored entry is an object and so is truthy.
\<close>

definition get_try :: "CacheManager \<Rightarrow> int \<Rightarrow> string \<Rightarrow> exn + (cache_hit option \<times> CacheManager)" where
  "get_try cm now key =
     (case (case kv cm of None \<Rightarrow> Inr None | Some t \<Rightarrow> tier_get t key) of
        Inl e \<Rightarrow> Inl e
      | Inr hotData \<Rightarrow>
          (case (case hotData of
                   Some h \<Rightarrow> if isValid now (timestamp h) (hotTTL cm) then Some h else None
                 | None \<Rightarrow> None) of
             Some h \<Rightarrow>
               Inr (Some \<lparr>data = payload h, source = hot, age = now - timestamp h\<rparr>, cm)
           | None \<Rightarrow>
               (case (case r2 cm of None \<Rightarrow> Inr None | Some t \<Rightarrow> tier_get t key) of
                  Inl e \<Rightarrow> Inl e
                | Inr None \<Rightarrow> Inr (None, cm)
                | Inr (Some coldData) \<Rightarrow>
                    if isValid now (timestamp coldData) (coldTTL cm)
                    then (case setHot cm now key (payload coldData) of
                            Inl e \<Rightarrow> Inl e
                          | Inr cm' \<Rightarrow>
                              Inr (Some \<lparr>data = payload coldData, source = cold,
                                         age = now - timestamp coldData\<rparr>, cm'))
                    else Inr (None, cm))))"

text \<open>\<^verbatim>\<open>get\<close>: any error of the \<^verbatim>\<open>try\<close> block is logged and answered with \<^verbatim>\<open>null\<close>.\<close>

definition get :: "CacheManager \<Rightarrow> int \<Rightarrow> string \<Rightarrow> args \<Rightarrow> cache_hit option \<times> CacheManager" where
  "get cm now tool_name as =
     (let key = generateKey tool_name as
      in case get_try cm now key of Inl e \<Rightarrow> (None, cm) | Inr r \<Rightarrow> r)"

text \<open>
  The \<^verbatim>\<open>try\<close> block of \<^verbatim>\<open>set\<close>: the hot write, then the cold write. The first
  rejection abandons the rest; a hot write that succeeded before the cold one failed stays.
\<close>

definition set_try :: "CacheManager \<Rightarrow> int \<Rightarrow> string \<Rightarrow> jsval \<Rightarrow> cold_entry \<Rightarrow> (exn + unit) \<times> CacheManager" where
  "set_try cm now key d entry =
     (case setHot cm now key d of
        Inl e \<Rightarrow> (Inl e, cm)
      | Inr cm1 \<Rightarrow>
          (case setCold cm1 key entry of
             Inl e \<Rightarrow> (Inl e, cm1)
           | Inr cm2 \<Rightarrow> (Inr (), cm2)))"

text \<open>
  \<^verbatim>\<open>set\<close> (named \<open>set_cache\<close> here): \<^verbatim>\<open>true\<close> when the block completes, and any error
  of the block is logged and answered with \<^verbatim>\<open>false\<close>.
\<close>

definition set_cache :: "CacheManager \<Rightarrow> int \<Rightarrow> string \<Rightarrow> args \<Rightarrow> jsval \<Rightarrow> bool \<times> CacheManager" where
  "set_cache cm now tool_name as d =
     (let key = generateKey tool_name as;
          entry = \<lparr>payload = d, timestamp = now, cold_tool = tool_name, cold_args = as\<rparr>
      in case set_try cm now key d entry of
           (Inl e, cm') \<Rightarrow> (False, cm')
         | (Inr u, cm') \<Rightarrow> (True, cm'))"

text \<open>What a tier holds under a key, and whether a write to it rejects.\<close>

definition hot_lookup :: "CacheManager \<Rightarrow> string \<Rightarrow> hot_entry option" where
  "hot_lookup cm key = (case kv cm of None \<Rightarrow> None | Some t \<Rightarrow> contents t key)"

definition cold_lookup :: "CacheManager \<Rightarrow> string \<Rightarrow> cold_entry option" where
  "cold_lookup cm key = (case r2 cm of None \<Rightarrow> None | Some t \<Rightarrow> contents t key)"

definition hot_write_rejects :: "CacheManager \<Rightarrow> bool" where
  "hot_write_rejects cm = (case kv cm of None \<Rightarrow> False | Some t \<Rightarrow> put_throws t)"

definition cold_write_rejects :: "CacheManager \<Rightarrow> bool" where
  "cold_write_rejects cm = (case r2 cm of None \<Rightarrow> False | Some t \<Rightarrow> put_throws t)"

section \<open>Normalized schemas\<close>

text \<open>
  The expression forms the transforms are written in: \<^verbatim>\<open>v.k\<close>, which throws on \<^verbatim>\<open>null\<close>
  and \<^verbatim>\<open>undefined\<close>; \<^verbatim>\<open>v?.k\<close>, \<^verbatim>\<open>v?.toString()\<close> and \<^verbatim>\<open>v?.toLowerCase()\<close>, which give
  \<^verbatim>\<open>undefined\<close> there; \<^verbatim>\<open>a || b\<close>; and \<^verbatim>\<open>v.map(f)\<close>, which only an array has. Of two
  computations that can throw, the second runs on the value of the first.
\<close>

definition nullish :: "jsval \<Rightarrow> bool" where
  "nullish v = (v = Prim Undefined \<or> v = Prim Null)"

definition read_prop :: "jsval \<Rightarrow> string \<Rightarrow> exn + jsval" where
  "read_prop v k =
     (if nullish v then Inl (TypeError (''Cannot read properties of undefined or null: '' @ k))
      else Inr (get_prop v k))"

definition opt_prop :: "jsval \<Rightarrow> string \<Rightarrow> jsval" where
  "opt_prop v k = (if nullish v then Prim Undefined else get_prop v k)"

definition opt_toString :: "jsval \<Rightarrow> exn + jsval" where
  "opt_toString v =
     (if nullish v then Inr (Prim Undefined) else map_sum id (\<lambda>s. Prim (Str s)) (toString v))"

definition opt_toLowerCase :: "jsval \<Rightarrow> exn + jsval" where
  "opt_toLowerCase v =
     (if nullish v then Inr (Prim Undefined)
      else (case v of
              Prim (Str s) \<Rightarrow> Inr (Prim (Str (toLowerCase s)))
            | _ \<Rightarrow> Inl (TypeError ''toLowerCase is not a function'')))"

definition or_else :: "jsval \<Rightarrow> jsval \<Rightarrow> jsval" where
  "or_else a b = (if truthy a then a else b)"

definition and_then :: "exn + 'a \<Rightarrow> ('a \<Rightarrow> exn + 'b) \<Rightarrow> exn + 'b" where
  "and_then r f = (case r of Inl e \<Rightarrow> Inl e | Inr v \<Rightarrow> f v)"

fun map_exn :: "('a \<Rightarrow> exn + 'b) \<Rightarrow> 'a list \<Rightarrow> exn + 'b list" where
  "map_exn f [] = Inr []"
| "map_exn f (x # xs) = and_then (f x) (\<lambda>y. map_sum id ((#) y) (map_exn f xs))"

definition array_map :: "jsval \<Rightarrow> (jsval \<Rightarrow> exn + 'b) \<Rightarrow> exn + 'b list" where
  "array_map v f =
     (case v of Arr xs \<Rightarrow> map_exn f xs | _ \<Rightarrow> Inl (TypeError ''map is not a function''))"

text \<open>
  \<^verbatim>\<open>transformMLBTeam\<close>, \<^verbatim>\<open>transformMLBPlayer\<close> and \<^verbatim>\<open>transformMLBGame\<close>. The properties
  are computed in the order of the object literal; only the \<^verbatim>\<open>toString\<close> and
  \<^verbatim>\<open>toLowerCase\<close> calls and the first read can throw.
\<close>

definition transformMLBTeam :: "jsval \<Rightarrow> exn + jsval" where
  "transformMLBTeam mlbTeam =
     and_then (read_prop mlbTeam ''id'') (\<lambda>i.
     and_then (toString i) (\<lambda>team_id.
     and_then (opt_toString (opt_prop (get_prop mlbTeam ''venue'') ''id'')) (\<lambda>venue_id.
       Inr (Obj [(''id'', Prim (Str team_id)),
                 (''name'', get_prop mlbTeam ''name''),
                 (''abbreviation'', get_prop mlbTeam ''abbreviation''),
                 (''city'', get_prop mlbTeam ''locationName''),
                 (''league'', opt_prop (get_prop mlbTeam ''league'') ''name''),
                 (''division'', opt_prop (get_prop mlbTeam ''division'') ''name''),
                 (''venue'', Obj [(''id'', venue_id),
                                  (''name'', opt_prop (get_prop mlbTeam ''venue'') ''name'')]),
                 (''colors'', Obj [(''primary'', Prim Null), (''secondary'', Prim Null)])]))))"

definition transformMLBPlayer :: "jsval \<Rightarrow> exn + jsval" where
  "transformMLBPlayer mlbPlayer =
     and_then (read_prop mlbPlayer ''id'') (\<lambda>i.
     and_then (toString i) (\<lambda>player_id.
     and_then (opt_toString (opt_prop (get_prop mlbPlayer ''currentTeam'') ''id'')) (\<lambda>team_id.
       Inr (Obj [(''id'', Prim (Str player_id)),
                 (''name'', get_prop mlbPlayer ''fullName''),
                 (''firstName'', get_prop mlbPlayer ''firstName''),
                 (''lastName'', get_prop mlbPlayer ''lastName''),
                 (''number'', get_prop mlbPlayer ''primaryNumber''),
                 (''position'', opt_prop (get_prop mlbPlayer ''primaryPosition'') ''name''),
                 (''team'', Obj [(''id'', team_id),
                                 (''name'', opt_prop (get_prop mlbPlayer ''currentTeam'') ''name'')]),
                 (''birthDate'', get_prop mlbPlayer ''birthDate''),
                 (''age'', get_prop mlbPlayer ''currentAge''),
                 (''height'', get_prop mlbPlayer ''height''),
                 (''weight'', get_prop mlbPlayer ''weight''),
                 (''stats'', Obj [])]))))"

definition transformMLBGame :: "jsval \<Rightarrow> exn + jsval" where
  "transformMLBGame mlbGame =
     and_then (read_prop mlbGame ''gamePk'') (\<lambda>pk.
     and_then (toString pk) (\<lambda>game_id.
     and_then (opt_toLowerCase (opt_prop (get_prop mlbGame ''status'') ''detailedState'')) (\<lambda>status.
     and_then (opt_toString
       (opt_prop (opt_prop (opt_prop (get_prop mlbGame ''teams'') ''home'') ''team'') ''id'')) (\<lambda>home_id.
     and_then (opt_toString
       (opt_prop (opt_prop (opt_prop (get_prop mlbGame ''teams'') ''away'') ''team'') ''id'')) (\<lambda>away_id.
     and_then (opt_toString (opt_prop (get_prop mlbGame ''venue'') ''id'')) (\<lambda>venue_id.
       Inr (Obj [(''id'', Prim (Str game_id)),
                 (''date'', get_prop mlbGame ''gameDate''),
                 (''time'', get_prop mlbGame ''gameDate''),
                 (''status'', status),
                 (''homeTeam'',
                    Obj [(''id'', home_id),
                         (''name'', opt_prop (opt_prop (opt_prop (get_prop mlbGame ''teams'')
                                       ''home'') ''team'') ''name''),
                         (''score'', or_else (opt_prop (opt_prop (get_prop mlbGame ''teams'')
                                       ''home'') ''score'') (Prim (Num 0)))]),
                 (''awayTeam'',
                    Obj [(''id'', away_id),
                         (''name'', opt_prop (opt_prop (opt_prop (get_prop mlbGame ''teams'')
                                       ''away'') ''team'') ''name''),
                         (''score'', or_else (opt_prop (opt_prop (get_prop mlbGame ''teams'')
                                       ''away'') ''score'') (Prim (Num 0)))]),
                 (''venue'', Obj [(''id'', venue_id),
                                  (''name'', opt_prop (get_prop mlbGame ''venue'') ''name'')]),
                 (''inning'', opt_prop (get_prop mlbGame ''linescore'') ''currentInning''),
                 (''inningHalf'', opt_prop (get_prop mlbGame ''linescore'') ''inningHalf''),
                 (''liveData'', or_else (get_prop mlbGame ''liveData'') (Obj []))])))))))"

text \<open>
  The roster callback: the transformed \<^verbatim>\<open>player.person\<close>, spread into a new object in
  which \<^verbatim>\<open>position\<close> is then replaced and \<^verbatim>\<open>status\<close> added.
\<close>

definition roster_entry :: "jsval \<Rightarrow> exn + jsval" where
  "roster_entry player =
     and_then (read_prop player ''person'') (\<lambda>person.
     and_then (transformMLBPlayer person) (\<lambda>p.
       Inr (case p of
              Obj kvs \<Rightarrow>
                Obj (set_prop (set_prop kvs ''position''
                                 (opt_prop (get_prop player ''position'') ''name''))
                       ''status'' (opt_prop (get_prop player ''status'') ''code''))
            | _ \<Rightarrow> p)))"

text \<open>
  The schedule callback \<^verbatim>\<open>date.games?.map(transformMLBGame) || []\<close>; \<^verbatim>\<open>flatMap\<close> then
  concatenates the lists.
\<close>

definition games_of_date :: "jsval \<Rightarrow> exn + jsval list" where
  "games_of_date date =
     and_then (read_prop date ''games'') (\<lambda>games.
       if nullish games then Inr [] else array_map games transformMLBGame)"

text \<open>\<^verbatim>\<open>_normalizeResult\<close>: the \<^verbatim>\<open>switch\<close> on the tool name.\<close>

definition normalizeResult :: "string \<Rightarrow> jsval \<Rightarrow> exn + jsval" where
  "normalizeResult toolName rawResult =
     (if toolName = ''get_team_info''
      then and_then (read_prop rawResult ''teams'') (\<lambda>ts.
             if truthy ts
             then map_sum id (\<lambda>xs. Obj [(''teams'', Arr xs)]) (array_map ts transformMLBTeam)
             else Inr rawResult)
      else if toolName = ''get_player_stats'' then Inr rawResult
      else if toolName = ''get_team_roster''
      then and_then (read_prop rawResult ''roster'') (\<lambda>r.
             if truthy r
             then map_sum id (\<lambda>xs. Obj [(''roster'', Arr xs)]) (array_map r roster_entry)
             else Inr rawResult)
      else if toolName = ''get_schedule''
      then and_then (read_prop rawResult ''dates'') (\<lambda>ds.
             if truthy ds
             then map_sum id (\<lambda>gs. Obj [(''games'', Arr (concat gs))]) (array_map ds games_of_date)
             else Inr rawResult)
      else if toolName = ''get_standings'' then Inr rawResult
      else if toolName = ''get_live_game'' then transformMLBGame rawResult
      else Inr rawResult)"

section \<open>Tool execution\<close>

text \<open>
  A lookup in an object literal used as a table also finds what every object inherits
  from \<^verbatim>\<open>Object.prototype\<close>: for these names the lookup gives a function (or, for
  \<^verbatim>\<open>__proto__\<close>, the prototype object), which is truthy and is neither a string nor
  iterable.
\<close>

definition object_prototype_keys :: "string list" where
  "object_prototype_keys =
     [''constructor'', ''__proto__'', ''hasOwnProperty'', ''isPrototypeOf'',
      ''propertyIsEnumerable'', ''toLocaleString'', ''toString'', ''valueOf'',
      ''__defineGetter__'', ''__defineSetter__'', ''__lookupGetter__'', ''__lookupSetter__'']"

datatype 'a table_entry = Own 'a | Inherited | Missing

definition table_lookup :: "(string \<times> 'a) list \<Rightarrow> string \<Rightarrow> 'a table_entry" where
  "table_lookup tbl k =
     (case map_of tbl k of
        Some v \<Rightarrow> Own v
      | None \<Rightarrow> if k \<in> set object_prototype_keys then Inherited else Missing)"

text \<open>
  What the orchestrator consumes from outside. \<open>mlb\<close> is the service binding
  \<^verbatim>\<open>env.MLB_MCP\<close> (absent when not configured): its \<^verbatim>\<open>fetch\<close> answers a request, which
  \<^verbatim>\<open>_buildMCPRequest\<close> builds from the command and the arguments alone, and may change the
  backend's own state \<open>'b\<close>; the command is absent from the request body when the table
  lookup gave a function. \<open>JSON_stringify\<close> and \<open>JSON_parse\<close> are the built-ins;
  \<^verbatim>\<open>JSON.stringify\<close> gives \<^verbatim>\<open>undefined\<close> (here \<open>None\<close>) on \<^verbatim>\<open>undefined\<close>. Everything
  below is stated for every such backend and pair of built-ins.
\<close>

record http_response =
  resp_ok :: bool
  resp_status :: int
  resp_text :: string
  resp_json :: "exn + jsval"

record 'b runtime =
  mlb :: "('b \<Rightarrow> string option \<Rightarrow> args \<Rightarrow> (exn + http_response) \<times> 'b) option"
  JSON_stringify :: "jsval \<Rightarrow> string option"
  JSON_parse :: "string \<Rightarrow> exn + jsval"

text \<open>
  The state a request works on: the cache tiers, the backend, and the clock, which gives
  the successive readings of \<^verbatim>\<open>Date.now()\<close>.
\<close>

record 'b world =
  cache :: CacheManager
  backend :: 'b
  clock :: "nat \<Rightarrow> int"
  ticks :: nat

definition Date_now :: "'b world \<Rightarrow> int \<times> 'b world" where
  "Date_now w = (clock w (ticks w), w\<lparr>ticks := Suc (ticks w)\<rparr>)"

definition commandMap :: "(string \<times> string) list" where
  "commandMap =
     [(''resolve_team'', ''resolve_team''),
      (''resolve_player'', ''resolve_player''),
      (''get_team_info'', ''getTeamInfo''),
      (''get_player_stats'', ''getPlayerStats''),
      (''get_team_roster'', ''getRoster''),
      (''get_schedule'', ''getSchedule''),
      (''get_standings'', ''getStandings''),
      (''get_live_game'', ''getLiveGame'')]"

text \<open>\<^verbatim>\<open>new Error(v)\<close> takes the string conversion of a defined \<open>v\<close> as its message.\<close>

definition new_Error :: "jsval \<Rightarrow> exn" where
  "new_Error v =
     (case v of
        Prim Undefined \<Rightarrow> Error []
      | _ \<Rightarrow> (case to_string v of Inl e \<Rightarrow> e | Inr m \<Rightarrow> Error m))"

definition routeToolCall :: "'b runtime \<Rightarrow> 'b world \<Rightarrow> string \<Rightarrow> args \<Rightarrow> (exn + jsval) \<times> 'b world" where
  "routeToolCall rt w toolName as =
     (case mlb rt of
        None \<Rightarrow> (Inl (Error ''MLB MCP service not available''), w)
      | Some fetch \<Rightarrow>
          (case table_lookup commandMap toolName of
             Missing \<Rightarrow> (Inl (Error (''Unknown tool: '' @ toolName)), w)
           | command \<Rightarrow>
               (case fetch (backend w) (case command of Own c \<Rightarrow> Some c | _ \<Rightarrow> None) as of
                  (Inl e, b) \<Rightarrow> (Inl e, w\<lparr>backend := b\<rparr>)
                | (Inr response, b) \<Rightarrow>
                    (if \<not> resp_ok response
                     then Inl (Error (''MCP service error: '' @ int_to_string (resp_status response)
                                       @ '' - '' @ resp_text response))
                     else (case resp_json response of
                             Inl e \<Rightarrow> Inl e
                           | Inr (Prim Undefined) \<Rightarrow> Inl (TypeError ''Cannot read properties of undefined'')
                           | Inr (Prim Null) \<Rightarrow> Inl (TypeError ''Cannot read properties of null'')
                           | Inr res \<Rightarrow>
                               if truthy (get_prop res ''error'')
                               then Inl (new_Error (get_prop res ''error''))
                               else Inr (get_prop res ''result'')),
                     w\<lparr>backend := b\<rparr>))))"

record tool_response =
  content_text :: "string option"
  isError :: bool

definition jsval_of_args :: "args \<Rightarrow> jsval" where
  "jsval_of_args as = Obj (map (\<lambda>(k, v). (k, Prim v)) as)"

text \<open>\<^verbatim>\<open>callTool\<close> never throws: a failure becomes a response flagged \<^verbatim>\<open>isError\<close>.\<close>

definition callTool :: "'b runtime \<Rightarrow> 'b world \<Rightarrow> string \<Rightarrow> args \<Rightarrow> tool_response \<times> 'b world" where
  "callTool rt w toolName as =
     (case routeToolCall rt w toolName as of
        (r, w') \<Rightarrow>
          (case (case r of Inl e \<Rightarrow> Inl e | Inr raw \<Rightarrow> normalizeResult toolName raw) of
             Inr normalizedResult \<Rightarrow>
               (\<lparr>content_text = JSON_stringify rt normalizedResult, isError = False\<rparr>, w')
           | Inl e \<Rightarrow>
               (\<lparr>content_text = JSON_stringify rt
                    (Obj [(''error'', Prim (Str (message e))), (''tool'', Prim (Str toolName)),
                          (''arguments'', jsval_of_args as)]),
                 isError = True\<rparr>, w')))"

text \<open>
  \<^verbatim>\<open>_executeSingleTool\<close>. A cache hit is an object, hence truthy. \<^verbatim>\<open>getSmartTTL\<close> is
  called for a value that is not used and has no effect. The answer of \<^verbatim>\<open>cache.set\<close>
  is ignored. \<^verbatim>\<open>JSON.parse(undefined)\<close> throws a \<^verbatim>\<open>SyntaxError\<close>.
\<close>

definition executeSingleTool :: "'b runtime \<Rightarrow> 'b world \<Rightarrow> string \<Rightarrow> args \<Rightarrow> (exn + jsval) \<times> 'b world" where
  "executeSingleTool rt w toolName as =
     (case Date_now w of
        (t1, w1) \<Rightarrow>
          (case get (cache w1) t1 toolName as of
             (Some cached, cm) \<Rightarrow> (Inr (data cached), w1\<lparr>cache := cm\<rparr>)
           | (None, cm) \<Rightarrow>
               (case callTool rt (w1\<lparr>cache := cm\<rparr>) toolName as of
                  (response, w2) \<Rightarrow>
                    if \<not> isError response
                    then (case (case content_text response of
                                  None \<Rightarrow> Inl (SyntaxError ''undefined is not valid JSON'')
                                | Some txt \<Rightarrow> JSON_parse rt txt) of
                            Inl e \<Rightarrow> (Inl e, w2)
                          | Inr d \<Rightarrow>
                              (case Date_now w2 of
                                 (t2, w3) \<Rightarrow>
                                   (case set_cache (cache w3) t2 toolName as d of
                                      (_, cm') \<Rightarrow> (Inr d, w3\<lparr>cache := cm'\<rparr>))))
                    else (Inl (Error (case content_text response of None \<Rightarrow> [] | Some txt \<Rightarrow> txt)),
                          w2))))"

section \<open>Resolve, enrich, execute\<close>

record tool_call =
  name :: string
  arguments :: args

record exec_result =
  tool :: string
  result :: "jsval option"
  error :: "string option"
  success :: bool
  enriched :: "bool option"

definition toolEntityMap :: "(string \<times> string list) list" where
  "toolEntityMap =
     [(''get_team_info'', [''team'']),
      (''get_team_roster'', [''team'']),
      (''get_player_stats'', [''player'']),
      (''get_schedule'', [''team'']),
      (''get_standings'', []),
      (''get_live_game'', [])]"

text \<open>The argument an entity type is injected as.\<close>

definition entity_arg_key :: "string \<Rightarrow> string" where
  "entity_arg_key entityType = (if entityType = ''team'' then ''teamId'' else ''playerId'')"

text \<open>
  One round of the loop over the required entity types. The guards are truthiness tests:
  \<^verbatim>\<open>resolvedEntity && resolvedEntity.id\<close> and \<^verbatim>\<open>!enrichedArgs.teamId\<close>.
\<close>

definition enrich_entity :: "(string \<rightharpoonup> jsval) \<Rightarrow> string \<Rightarrow> args \<Rightarrow> exn + args" where
  "enrich_entity resolverResults entityType enrichedArgs =
     (case resolverResults entityType of
        None \<Rightarrow> Inr enrichedArgs
      | Some resolvedEntity \<Rightarrow>
          if truthy resolvedEntity \<and> truthy (get_prop resolvedEntity ''id'')
          then (if entityType = ''team''
                then (if \<not> truthy_scalar (arg_value enrichedArgs ''teamId'')
                      then map_sum id (\<lambda>s. set_prop enrichedArgs ''teamId'' (Str s))
                             (toString (get_prop resolvedEntity ''id''))
                      else Inr enrichedArgs)
                else if entityType = ''player''
                then (if \<not> truthy_scalar (arg_value enrichedArgs ''playerId'')
                      then map_sum id (\<lambda>s. set_prop enrichedArgs ''playerId'' (Str s))
                             (toString (get_prop resolvedEntity ''id''))
                      else Inr enrichedArgs)
                else Inr enrichedArgs)
          else Inr enrichedArgs)"

fun enrich_loop :: "(string \<rightharpoonup> jsval) \<Rightarrow> string list \<Rightarrow> args \<Rightarrow> exn + args" where
  "enrich_loop resolverResults [] enrichedArgs = Inr enrichedArgs"
| "enrich_loop resolverResults (entityType # rest) enrichedArgs =
     (case enrich_entity resolverResults entityType enrichedArgs of
        Inl e \<Rightarrow> Inl e
      | Inr enrichedArgs' \<Rightarrow> enrich_loop resolverResults rest enrichedArgs')"

text \<open>
  \<^verbatim>\<open>_enrichToolArguments\<close>: the copy of the call's arguments, then the loop over
  \<^verbatim>\<open>toolEntityMap[toolCall.name] || []\<close>. An inherited entry is truthy and not iterable.
\<close>

definition enrichToolArguments :: "tool_call \<Rightarrow> (string \<rightharpoonup> jsval) \<Rightarrow> exn + args" where
  "enrichToolArguments toolCall resolverResults =
     (case table_lookup toolEntityMap (name toolCall) of
        Own requiredEntities \<Rightarrow> enrich_loop resolverResults requiredEntities (arguments toolCall)
      | Missing \<Rightarrow> enrich_loop resolverResults [] (arguments toolCall)
      | Inherited \<Rightarrow> Inl (TypeError ''requiredEntities is not iterable''))"

definition is_resolver :: "string \<Rightarrow> bool" where
  "is_resolver n = (n = ''resolve_team'' \<or> n = ''resolve_player'')"

definition succeeded :: "string \<Rightarrow> jsval \<Rightarrow> bool option \<Rightarrow> exec_result" where
  "succeeded n r e = \<lparr>tool = n, result = Some r, error = None, success = True, enriched = e\<rparr>"

definition failed :: "string \<Rightarrow> exn \<Rightarrow> exec_result" where
  "failed n e = \<lparr>tool = n, result = None, error = Some (message e), success = False, enriched = None\<rparr>"

text \<open>
  The two loops call \<^verbatim>\<open>this._executeSingleTool\<close> with the cache they are given; they are
  written here over that executor, a function from the state, the tool name and the
  arguments to a payload or an exception and the next state.
\<close>

type_synonym 'w executor = "'w \<Rightarrow> string \<Rightarrow> args \<Rightarrow> (exn + jsval) \<times> 'w"

text \<open>The first loop of \<^verbatim>\<open>_processToolCalls\<close>: resolvers only.\<close>

fun first_pass :: "'w executor \<Rightarrow> tool_call list
    \<Rightarrow> exec_result list \<times> (string \<rightharpoonup> jsval) \<times> 'w
    \<Rightarrow> exec_result list \<times> (string \<rightharpoonup> jsval) \<times> 'w" where
  "first_pass exec [] acc = acc"
| "first_pass exec (toolCall # rest) (results, resolverResults, w) =
     (if name toolCall = ''resolve_team'' \<or> name toolCall = ''resolve_player''
      then (case exec w (name toolCall) (arguments toolCall) of
              (Inr r, w') \<Rightarrow>
                first_pass exec rest
                  (results @ [succeeded (name toolCall) r None],
                   (if truthy r \<and> truthy (get_prop r ''id'')
                    then resolverResults
                           ((if name toolCall = ''resolve_team'' then ''team'' else ''player'') \<mapsto> r)
                    else resolverResults),
                   w')
            | (Inl e, w') \<Rightarrow>
                first_pass exec rest (results @ [failed (name toolCall) e], resolverResults, w'))
      else first_pass exec rest (results, resolverResults, w))"

text \<open>
  The second loop: every other call, with enriched arguments. The enriched arguments are
  a fresh object, so \<^verbatim>\<open>enrichedArgs !== toolCall.arguments\<close> is always true.
\<close>

fun second_pass :: "'w executor \<Rightarrow> (string \<rightharpoonup> jsval) \<Rightarrow> tool_call list
    \<Rightarrow> exec_result list \<times> 'w \<Rightarrow> exec_result list \<times> 'w" where
  "second_pass exec resolverResults [] acc = acc"
| "second_pass exec resolverResults (toolCall # rest) (results, w) =
     (if name toolCall \<noteq> ''resolve_team'' \<and> name toolCall \<noteq> ''resolve_player''
      then (case enrichToolArguments toolCall resolverResults of
              Inl e \<Rightarrow>
                second_pass exec resolverResults rest (results @ [failed (name toolCall) e], w)
            | Inr enrichedArgs \<Rightarrow>
                (case exec w (name toolCall) enrichedArgs of
                   (Inr r, w') \<Rightarrow>
                     second_pass exec resolverResults rest
                       (results @ [succeeded (name toolCall) r (Some True)], w')
                 | (Inl e, w') \<Rightarrow>
                     second_pass exec resolverResults rest
                       (results @ [failed (name toolCall) e], w')))
      else second_pass exec resolverResults rest (results, w))"

definition processToolCalls_with :: "'w executor \<Rightarrow> tool_call list \<Rightarrow> 'w \<Rightarrow> exec_result list \<times> 'w" where
  "processToolCalls_with exec toolCalls w =
     (case first_pass exec toolCalls ([], Map.empty, w) of
        (results, resolverResults, w1) \<Rightarrow> second_pass exec resolverResults toolCalls (results, w1))"

text \<open>\<^verbatim>\<open>_processToolCalls\<close> of the orchestrator: the loops over its own \<^verbatim>\<open>_executeSingleTool\<close>.\<close>

definition processToolCalls :: "'b runtime \<Rightarrow> tool_call list \<Rightarrow> 'b world \<Rightarrow> exec_result list \<times> 'b world" where
  "processToolCalls rt toolCalls w = processToolCalls_with (executeSingleTool rt) toolCalls w"

text \<open>
  An \<^verbatim>\<open>ExecutionResult\<close> is either a success carrying a result or a failure carrying an
  error message.
\<close>

definition captured :: "exec_result \<Rightarrow> bool" where
  "captured r = (if success r then result r \<noteq> None \<and> error r = None
                 else result r = None \<and> error r \<noteq> None)"

section \<open>Observing the executions\<close>









section \<open>Extraction of tool calls\<close>

text \<open>
  A declared tool: \<^verbatim>\<open>t.name\<close>, \<^verbatim>\<open>t.type\<close>, and \<^verbatim>\<open>t.function\<close>, an object whose
  \<^verbatim>\<open>name\<close> may be missing. The request input is a string or a list of messages.
\<close>

record tool_def =
  def_name :: "string option"
  def_type :: "string option"
  def_function :: "string option option"

datatype input = Text string | Messages "jsval list"

definition team_info_patterns :: "string list" where
  "team_info_patterns = [''about'', ''info'', ''information'', ''details'', ''tell me about'']"

definition roster_patterns :: "string list" where
  "roster_patterns = [''roster'', ''players'', ''team members'', ''lineup'']"

definition stats_patterns :: "string list" where
  "stats_patterns = [''stats'', ''statistics'', ''performance'', ''numbers'']"

definition schedule_patterns :: "string list" where
  "schedule_patterns = [''schedule'', ''games'', ''when'', ''playing'']"

definition standings_patterns :: "string list" where
  "standings_patterns = [''standings'', ''rankings'', ''position'', ''place'']"

definition teams :: "string list" where
  "teams = [''yankees'', ''red sox'', ''dodgers'', ''giants'', ''mets'', ''cubs'', ''braves'',
            ''astros'']"

definition players :: "string list" where
  "players = [''judge'', ''ohtani'', ''trout'', ''betts'', ''acuna'', ''freeman'']"



definition matches :: "string \<Rightarrow> string list \<Rightarrow> bool" where
  "matches inputText patterns = list_ex (str_includes inputText) patterns"

text \<open>
  The block both classes share, after the entity tests: the resolver calls, then at most
  one data call, chosen by the first branch of the chain whose keyphrase and tool are
  there. \<open>declared\<close> is the test \<^verbatim>\<open>tools.some(...)\<close> for a tool name. The whole block is
  guarded by \<^verbatim>\<open>hasTeamEntity || hasPlayerEntity\<close>.
\<close>

definition entity_calls :: "string list \<Rightarrow> string list \<Rightarrow> (string \<Rightarrow> bool) \<Rightarrow> string \<Rightarrow> tool_call list" where
  "entity_calls team_names player_names declared inputText =
     (let hasTeamEntity = matches inputText team_names;
          hasPlayerEntity = matches inputText player_names
      in if hasTeamEntity \<or> hasPlayerEntity
         then (if hasTeamEntity \<and> declared ''resolve_team''
               then (case find (str_includes inputText) team_names of
                       Some teamName \<Rightarrow>
                         [\<lparr>name = ''resolve_team'', arguments = [(''name'', Str teamName)]\<rparr>]
                     | None \<Rightarrow> [\<lparr>name = ''resolve_team'', arguments = [(''name'', Undefined)]\<rparr>])
               else [])
              @ (if hasPlayerEntity \<and> declared ''resolve_player''
                 then (case find (str_includes inputText) player_names of
                         Some playerName \<Rightarrow>
                           [\<lparr>name = ''resolve_player'', arguments = [(''name'', Str playerName)]\<rparr>]
                       | None \<Rightarrow> [\<lparr>name = ''resolve_player'', arguments = [(''name'', Undefined)]\<rparr>])
                 else [])
              @ (if matches inputText roster_patterns \<and> declared ''get_team_roster''
                 then [\<lparr>name = ''get_team_roster'', arguments = []\<rparr>]
                 else if matches inputText team_info_patterns \<and> declared ''get_team_info''
                 then [\<lparr>name = ''get_team_info'', arguments = []\<rparr>]
                 else if matches inputText stats_patterns \<and> declared ''get_player_stats''
                         \<and> hasPlayerEntity
                 then [\<lparr>name = ''get_player_stats'', arguments = []\<rparr>]
                 else [])
         else [])"

text \<open>
  The matchable text: the lower-cased string, or the lower-cased \<^verbatim>\<open>JSON.stringify\<close> of the
  message list.
\<close>

definition inputText_of :: "'b runtime \<Rightarrow> input \<Rightarrow> exn + string" where
  "inputText_of rt inp =
     (case inp of
        Text s \<Rightarrow> Inr (toLowerCase s)
      | Messages ms \<Rightarrow>
          (case JSON_stringify rt (Arr ms) of
             None \<Rightarrow> Inl (TypeError ''Cannot read properties of undefined'')
           | Some s \<Rightarrow> Inr (toLowerCase s)))"

text \<open>
  The tests \<^verbatim>\<open>tools.some(t => t.name === n)\<close> of the orchestrator and
  \<^verbatim>\<open>tools.some(t => t.name === n || (typeof t.function === 'object' && t.function.name === n))\<close>
  of \<^verbatim>\<open>ToolHandler\<close>.
\<close>

definition declared :: "tool_def list \<Rightarrow> string \<Rightarrow> bool" where
  "declared tools n = list_ex (\<lambda>t. def_name t = Some n) tools"


text \<open>\<^verbatim>\<open>_extractToolCalls\<close> of the orchestrator.\<close>

definition extractToolCalls :: "'b runtime \<Rightarrow> input \<Rightarrow> tool_def list \<Rightarrow> exn + tool_call list" where
  "extractToolCalls rt inp tools =
     (if tools = [] then Inr []
      else map_sum id
             (entity_calls teams players (declared tools))
             (inputText_of rt inp))"





section \<open>Non-streaming requests\<close>

text \<open>
  A device memory has a key and a value. A request carries the input, the declared
  tools, the optional \<^verbatim>\<open>previous_response_id\<close> and the optional memories.
\<close>

record memory =
  mem_key :: scalar
  mem_value :: scalar

record request =
  req_input :: input
  req_tools :: "tool_def list"
  previous_response_id :: "string option"
  memories :: "memory list option"

record usage =
  input_tokens :: nat
  output_tokens :: nat
  total_tokens :: nat

record response =
  output_text :: string
  response_usage :: usage

definition chat_message :: "string \<Rightarrow> string \<Rightarrow> jsval" where
  "chat_message role body = Obj [(''role'', Prim (Str role)), (''content'', Prim (Str body))]"

definition system_context :: string where
  "system_context = ''You are a helpful MLB sports data assistant. You have access to real-time MLB data through specialized tools. Always use the available tools when users ask about current stats, scores, or team information.''"

definition convertMemoriesToSystemMessages :: "memory list option \<Rightarrow> jsval list" where
  "convertMemoriesToSystemMessages mems =
     (case mems of
        None \<Rightarrow> []
      | Some ms \<Rightarrow>
          chat_message ''system'' system_context
          # map (\<lambda>m. chat_message ''system''
                       (''USER_MEMORY: '' @ scalar_to_string (mem_key m) @ '' = ''
                        @ scalar_to_string (mem_value m)))
              (filter (\<lambda>m. truthy_scalar (mem_key m) \<and> truthy_scalar (mem_value m)) ms))"

text \<open>
  \<^verbatim>\<open>_processInputWithMemories\<close>: a continuation keeps the input as it is; a new chat
  becomes the list of the memory messages followed by the input as messages.
\<close>

definition processInputWithMemories :: "input \<Rightarrow> memory list option \<Rightarrow> string option \<Rightarrow> input" where
  "processInputWithMemories inp mems prev =
     (if (case prev of None \<Rightarrow> False | Some p \<Rightarrow> p \<noteq> []) then inp
      else Messages (convertMemoriesToSystemMessages mems
                     @ (case inp of Text s \<Rightarrow> [chat_message ''user'' s] | Messages ms \<Rightarrow> ms)))"

text \<open>
  \<^verbatim>\<open>_estimateTokens(text)\<close>: 0 for a falsy argument, else \<^verbatim>\<open>Math.ceil(text.length / 4)\<close>.
  The \<^verbatim>\<open>length\<close> of a string is its number of characters, the \<^verbatim>\<open>length\<close> of an array its
  number of elements; an array is truthy even when empty.
\<close>

definition estimateTokens :: "input \<Rightarrow> nat" where
  "estimateTokens t =
     (case t of
        Text s \<Rightarrow> if s = [] then 0 else nat \<lceil>real (length s) / 4\<rceil>
      | Messages ms \<Rightarrow> nat \<lceil>real (length ms) / 4\<rceil>)"

definition greeting_text :: string where
  "greeting_text = ''Hello! I'' @ [CHR 0x27] @ ''m here and ready to help you with MLB sports data. I can provide team information, player stats, schedules, standings, and live game data. What would you like to know?''"

text \<open>The bullet of the help text is one code unit; it is written here as the byte 0x95.\<close>

definition help_text :: string where
  "help_text = ''I can help you with MLB sports data using these tools:'' @ [CHR 0x0A, CHR 0x0A]
     @ [CHR 0x95] @ '' get_team_info - Team details and information'' @ [CHR 0x0A]
     @ [CHR 0x95] @ '' get_player_stats - Player statistics'' @ [CHR 0x0A]
     @ [CHR 0x95] @ '' get_team_roster - Team roster information'' @ [CHR 0x0A]
     @ [CHR 0x95] @ '' get_schedule - Game schedules'' @ [CHR 0x0A]
     @ [CHR 0x95] @ '' get_standings - League standings'' @ [CHR 0x0A]
     @ [CHR 0x95] @ '' get_live_game - Live game data'' @ [CHR 0x0A, CHR 0x0A]
     @ ''What specific information are you looking for?''"

definition default_text :: string where
  "default_text = ''I can help you with MLB sports data. Available tools: get_team_info, get_player_stats, get_team_roster, get_schedule, get_standings, get_live_game. What would you like to know?''"

text \<open>\<^verbatim>\<open>processedInput.filter(msg => msg.role === 'user')\<close>.\<close>

fun user_messages :: "jsval list \<Rightarrow> exn + jsval list" where
  "user_messages [] = Inr []"
| "user_messages (Prim Undefined # ms) = Inl (TypeError ''Cannot read properties of undefined'')"
| "user_messages (Prim Null # ms) = Inl (TypeError ''Cannot read properties of null'')"
| "user_messages (m # ms) =
     map_sum id (\<lambda>rest. if get_prop m ''role'' = Prim (Str ''user'') then m # rest else rest)
       (user_messages ms)"

text \<open>
  \<^verbatim>\<open>_generateContextualResponse\<close>. The content of the last user message, or the empty
  string when it is missing or falsy, must be a string for \<^verbatim>\<open>toLowerCase\<close>.
\<close>

definition generateContextualResponse :: "input \<Rightarrow> exn + string" where
  "generateContextualResponse processedInput =
     (case (case processedInput of
              Text s \<Rightarrow> Inr (Prim (Str s))
            | Messages ms \<Rightarrow>
                map_sum id
                  (\<lambda>userMessages. if userMessages = [] then Prim Undefined
                                   else get_prop (last userMessages) ''content'')
                  (user_messages ms)) of
        Inl e \<Rightarrow> Inl e
      | Inr c \<Rightarrow>
          (case (if truthy c then c else Prim (Str [])) of
             Prim (Str lastUserMessage) \<Rightarrow>
               Inr (if str_includes (toLowerCase lastUserMessage) ''hello''
                       \<or> str_includes (toLowerCase lastUserMessage) ''hi''
                       \<or> str_includes (toLowerCase lastUserMessage) ''are you there''
                    then greeting_text
                    else if str_includes (toLowerCase lastUserMessage) ''help'' then help_text
                    else default_text)
           | _ \<Rightarrow> Inl (TypeError ''lastUserMessage.toLowerCase is not a function'')))"

text \<open>\<^verbatim>\<open>_formatToolResults\<close>; \<^verbatim>\<open>JSON.stringify\<close> of \<^verbatim>\<open>undefined\<close> prints as \<^verbatim>\<open>undefined\<close>.\<close>

definition stringified :: "'b runtime \<Rightarrow> jsval \<Rightarrow> string" where
  "stringified rt v = (case JSON_stringify rt v of None \<Rightarrow> ''undefined'' | Some s \<Rightarrow> s)"

definition formatToolResults :: "'b runtime \<Rightarrow> exec_result list \<Rightarrow> string" where
  "formatToolResults rt toolResults =
     (if toolResults = [] then ''No tools were executed.''
      else trim (concat (map (\<lambda>r.
             if success r
             then tool r @ '': ''
                  @ stringified rt (case result r of None \<Rightarrow> Prim Undefined | Some v \<Rightarrow> v)
                  @ [CHR 0x0A, CHR 0x0A]
             else tool r @ '' failed: ''
                  @ (case error r of None \<Rightarrow> ''undefined'' | Some m \<Rightarrow> m)
                  @ [CHR 0x0A, CHR 0x0A]) toolResults)))"

text \<open>
  \<^verbatim>\<open>processResponsesAPIRequest\<close> for \<^verbatim>\<open>stream\<close> false. Of the response, the output text
  and the usage are modelled; the identifiers are random.
\<close>

definition processResponsesAPIRequest :: "'b runtime \<Rightarrow> request \<Rightarrow> 'b world \<Rightarrow> (exn + response) \<times> 'b world" where
  "processResponsesAPIRequest rt req w =
     (let processedInput =
            processInputWithMemories (req_input req) (memories req) (previous_response_id req)
      in case extractToolCalls rt processedInput (req_tools req) of
           Inl e \<Rightarrow> (Inl e, w)
         | Inr toolCalls \<Rightarrow>
             if toolCalls = []
             then (case generateContextualResponse processedInput of
                     Inl e \<Rightarrow> (Inl e, w)
                   | Inr txt \<Rightarrow>
                       (Inr \<lparr>output_text = txt,
                             response_usage =
                               \<lparr>input_tokens = estimateTokens processedInput,
                                output_tokens = 50,
                                total_tokens = estimateTokens processedInput + 50\<rparr>\<rparr>, w))
             else (case processToolCalls rt toolCalls w of
                     (toolResults, w') \<Rightarrow>
                       (Inr \<lparr>output_text = formatToolResults rt toolResults,
                             response_usage =
                               \<lparr>input_tokens = estimateTokens processedInput,
                                output_tokens = estimateTokens (Text (formatToolResults rt toolResults)),
                                total_tokens = estimateTokens processedInput
                                  + estimateTokens (Text (formatToolResults rt toolResults))\<rparr>\<rparr>,
                        w')))"

section \<open>Streaming\<close>

text \<open>
  The events of the stream, and the writer of the output channel: what has been written,
  how often \<^verbatim>\<open>write\<close> and \<^verbatim>\<open>close\<close> (here \<open>writer_write\<close> and \<open>writer_close\<close>)
  were called, and which calls reject
  (\<open>write_rejects n\<close> for the write after \<open>n\<close> earlier ones). A rejected write emits
  nothing.
\<close>

datatype sse_event =
    response_created
  | response_in_progress
  | tool_call_event string args
  | tool_result_event string jsval
  | output_text_delta string
  | response_completed
  | response_error string

fun is_error :: "sse_event \<Rightarrow> bool" where
  "is_error (response_error m) = True"
| "is_error ev = False"

fun is_terminal :: "sse_event \<Rightarrow> bool" where
  "is_terminal response_completed = True"
| "is_terminal ev = is_error ev"

record writer =
  emitted :: "sse_event list"
  write_calls :: nat
  write_rejects :: "nat \<Rightarrow> bool"
  close_calls :: nat
  close_rejects :: bool

definition writer_write :: "writer \<Rightarrow> sse_event \<Rightarrow> (exn + unit) \<times> writer" where
  "writer_write wr ev =
     (if write_rejects wr (write_calls wr)
      then (Inl (TypeError ''write failed''), wr\<lparr>write_calls := Suc (write_calls wr)\<rparr>)
      else (Inr (), wr\<lparr>emitted := emitted wr @ [ev], write_calls := Suc (write_calls wr)\<rparr>))"

definition writer_close :: "writer \<Rightarrow> (exn + unit) \<times> writer" where
  "writer_close wr =
     (if close_rejects wr then Inl (TypeError ''close failed'') else Inr (),
      wr\<lparr>close_calls := Suc (close_calls wr)\<rparr>)"

definition formatSingleToolResult :: "'b runtime \<Rightarrow> string \<Rightarrow> jsval \<Rightarrow> string" where
  "formatSingleToolResult rt toolName r = toolName @ '' result: '' @ stringified rt r"

text \<open>The loop over the words: one delta per word, stopping at the first rejected write.\<close>

fun write_words :: "writer \<Rightarrow> string list \<Rightarrow> (exn + unit) \<times> writer" where
  "write_words wr [] = (Inr (), wr)"
| "write_words wr (word # rest) =
     (case writer_write wr (output_text_delta (word @ '' '')) of
        (Inl e, wr') \<Rightarrow> (Inl e, wr')
      | (Inr u, wr') \<Rightarrow> write_words wr' rest)"

text \<open>
  The loop over the tool calls: the call event, the execution, the result event, the
  words. An exception of \<^verbatim>\<open>_executeSingleTool\<close> is not caught here.
\<close>

fun stream_tool_calls :: "'b runtime \<Rightarrow> tool_call list \<Rightarrow> writer \<times> 'b world
    \<Rightarrow> (exn + unit) \<times> writer \<times> 'b world" where
  "stream_tool_calls rt [] (wr, w) = (Inr (), wr, w)"
| "stream_tool_calls rt (toolCall # rest) (wr, w) =
     (case writer_write wr (tool_call_event (name toolCall) (arguments toolCall)) of
        (Inl e, wr1) \<Rightarrow> (Inl e, wr1, w)
      | (Inr u, wr1) \<Rightarrow>
          (case executeSingleTool rt w (name toolCall) (arguments toolCall) of
             (Inl e, w1) \<Rightarrow> (Inl e, wr1, w1)
           | (Inr r, w1) \<Rightarrow>
               (case writer_write wr1 (tool_result_event (name toolCall) r) of
                  (Inl e, wr2) \<Rightarrow> (Inl e, wr2, w1)
                | (Inr u, wr2) \<Rightarrow>
                    (case write_words wr2
                            (split (formatSingleToolResult rt (name toolCall) r) CHR '' '') of
                       (Inl e, wr3) \<Rightarrow> (Inl e, wr3, w1)
                     | (Inr u, wr3) \<Rightarrow> stream_tool_calls rt rest (wr3, w1)))))"

text \<open>The \<^verbatim>\<open>try\<close> block of \<^verbatim>\<open>_processStreamingRequest\<close>.\<close>

definition streaming_try :: "'b runtime \<Rightarrow> input \<Rightarrow> tool_def list \<Rightarrow> writer \<times> 'b world
    \<Rightarrow> (exn + unit) \<times> writer \<times> 'b world" where
  "streaming_try rt inp tools st =
     (case st of (wr, w) \<Rightarrow>
        (case writer_write wr response_created of
           (Inl e, wr1) \<Rightarrow> (Inl e, wr1, w)
         | (Inr u, wr1) \<Rightarrow>
             (case writer_write wr1 response_in_progress of
                (Inl e, wr2) \<Rightarrow> (Inl e, wr2, w)
              | (Inr u, wr2) \<Rightarrow>
                  (case extractToolCalls rt inp tools of
                     Inl e \<Rightarrow> (Inl e, wr2, w)
                   | Inr toolCalls \<Rightarrow>
                       (case (if toolCalls \<noteq> [] then stream_tool_calls rt toolCalls (wr2, w)
                              else (case write_words wr2 (split default_text CHR '' '') of
                                      (r, wr3) \<Rightarrow> (r, wr3, w))) of
                          (Inl e, wr3, w3) \<Rightarrow> (Inl e, wr3, w3)
                        | (Inr u, wr3, w3) \<Rightarrow>
                            (case writer_write wr3 response_completed of
                               (r, wr4) \<Rightarrow> (r, wr4, w3)))))))"

text \<open>
  \<^verbatim>\<open>_processStreamingRequest\<close>: an exception of the block is reported with an error
  event; the \<^verbatim>\<open>finally\<close> clause closes the writer on every path. A rejection of the
  error write or of \<^verbatim>\<open>close\<close> leaves the function as its exception, that of \<^verbatim>\<open>close\<close>
  taking precedence.
\<close>

definition processStreamingRequest :: "'b runtime \<Rightarrow> input \<Rightarrow> tool_def list \<Rightarrow> writer \<times> 'b world
    \<Rightarrow> (exn + unit) \<times> writer \<times> 'b world" where
  "processStreamingRequest rt inp tools st =
     (case streaming_try rt inp tools st of
        (Inr u, wr1, w1) \<Rightarrow> (case writer_close wr1 of (r, wr2) \<Rightarrow> (r, wr2, w1))
      | (Inl e, wr1, w1) \<Rightarrow>
          (case writer_write wr1 (response_error (message e)) of
             (caught, wr2) \<Rightarrow>
               (case writer_close wr2 of
                  (Inl e', wr3) \<Rightarrow> (Inl e', wr3, w1)
                | (Inr u, wr3) \<Rightarrow> (caught, wr3, w1))))"

section \<open>Example configurations\<close>

text \<open>Concrete caches used to run the operations: tiers that work and hold nothing yet.\<close>

definition empty_tier :: "'e tier" where
  "empty_tier = \<lparr>contents = Map.empty, get_throws = False, put_throws = False\<rparr>"

definition two_tier_cache :: CacheManager where
  "two_tier_cache = \<lparr>kv = Some empty_tier, r2 = Some empty_tier, hotTTL = 10, coldTTL = 300\<rparr>"

definition hot_only_cache :: CacheManager where
  "hot_only_cache = \<lparr>kv = Some empty_tier, r2 = None, hotTTL = 10, coldTTL = 300\<rparr>"



text \<open>A cache whose two tiers reject every write.\<close>

definition broken_cache :: CacheManager where
  "broken_cache =
     \<lparr>kv = Some (empty_tier\<lparr>put_throws := True\<rparr>),
      r2 = Some (empty_tier\<lparr>put_throws := True\<rparr>), hotTTL = 10, coldTTL = 300\<rparr>"

text \<open>
  A backend that knows one team and its roster and answers everything else with an
  application error; its state counts the requests it has served. The stand-ins for
  \<^verbatim>\<open>JSON.stringify\<close> and \<^verbatim>\<open>JSON.parse\<close> convert just the payloads of this backend.
\<close>

definition yankees :: jsval where
  "yankees = Obj [(''id'', Prim (Num 147)), (''name'', Prim (Str ''New York Yankees''))]"

text \<open>
  The roster as the backend sends it, as \<^verbatim>\<open>_normalizeResult\<close> reshapes it, and as it
  comes back from \<^verbatim>\<open>JSON.parse\<close>, which has lost the properties that were \<^verbatim>\<open>undefined\<close>.
\<close>

definition roster_147_raw :: jsval where
  "roster_147_raw =
     Obj [(''roster'',
           Arr [Obj [(''person'', Obj [(''id'', Prim (Num 592450)),
                                       (''fullName'', Prim (Str ''Aaron Judge''))]),
                     (''position'', Obj [(''name'', Prim (Str ''Outfielder''))]),
                     (''status'', Obj [(''code'', Prim (Str ''A''))])]])]"

definition roster_147_normalized :: jsval where
  "roster_147_normalized =
     Obj [(''roster'',
           Arr [Obj [(''id'', Prim (Str ''592450'')),
                     (''name'', Prim (Str ''Aaron Judge'')),
                     (''firstName'', Prim Undefined),
                     (''lastName'', Prim Undefined),
                     (''number'', Prim Undefined),
                     (''position'', Prim (Str ''Outfielder'')),
                     (''team'', Obj [(''id'', Prim Undefined), (''name'', Prim Undefined)]),
                     (''birthDate'', Prim Undefined),
                     (''age'', Prim Undefined),
                     (''height'', Prim Undefined),
                     (''weight'', Prim Undefined),
                     (''stats'', Obj []),
                     (''status'', Prim (Str ''A''))]])]"

definition roster_147 :: jsval where
  "roster_147 =
     Obj [(''roster'',
           Arr [Obj [(''id'', Prim (Str ''592450'')),
                     (''name'', Prim (Str ''Aaron Judge'')),
                     (''position'', Prim (Str ''Outfielder'')),
                     (''team'', Obj []),
                     (''stats'', Obj []),
                     (''status'', Prim (Str ''A''))]])]"

definition ok_response :: "jsval \<Rightarrow> http_response" where
  "ok_response body = \<lparr>resp_ok = True, resp_status = 200, resp_text = [], resp_json = Inr body\<rparr>"

definition demo_fetch :: "nat \<Rightarrow> string option \<Rightarrow> args \<Rightarrow> (exn + http_response) \<times> nat" where
  "demo_fetch served command as =
     (if command = Some ''resolve_team'' \<and> arg_value as ''name'' = Str ''yankees''
      then (Inr (ok_response (Obj [(''result'', yankees)])), Suc served)
      else if command = Some ''getRoster'' \<and> arg_value as ''teamId'' = Str ''147''
      then (Inr (ok_response (Obj [(''result'', roster_147_raw)])), Suc served)
      else (Inr (ok_response (Obj [(''error'', Prim (Str ''not found''))])), Suc served))"

definition demo_stringify :: "jsval \<Rightarrow> string option" where
  "demo_stringify v =
     (if v = yankees then Some ''{id:147,name:New York Yankees}''
      else if v = roster_147_normalized
      then Some ''{roster:[{id:592450,name:Aaron Judge,position:Outfielder,team:{},stats:{},status:A}]}''
      else (case v of
              Prim Undefined \<Rightarrow> None
            | Obj ((k, Prim (Str m)) # rest) \<Rightarrow> Some (''{'' @ k @ '':'' @ m @ ''}'')
            | _ \<Rightarrow> Some ''{}''))"

definition demo_parse :: "string \<Rightarrow> exn + jsval" where
  "demo_parse txt =
     (if txt = ''{id:147,name:New York Yankees}'' then Inr yankees
      else if txt = ''{roster:[{id:592450,name:Aaron Judge,position:Outfielder,team:{},stats:{},status:A}]}''
      then Inr roster_147
      else Inl (SyntaxError ''Unexpected token''))"

definition demo_runtime :: "nat runtime" where
  "demo_runtime =
     \<lparr>mlb = Some demo_fetch,
      JSON_stringify = demo_stringify, JSON_parse = demo_parse\<rparr>"

definition demo_world :: "CacheManager \<Rightarrow> nat world" where
  "demo_world cm = \<lparr>cache = cm, backend = 0, clock = (\<lambda>n. 1000 * int n), ticks = 0\<rparr>"

text \<open>
  Tool call lists: a data call issued before its resolver, and a run in which the team
  resolves and the player does not.
\<close>

definition interleaved_calls :: "tool_call list" where
  "interleaved_calls =
     [\<lparr>name = ''get_team_roster'', arguments = []\<rparr>,
      \<lparr>name = ''resolve_team'', arguments = [(''name'', Str ''yankees'')]\<rparr>]"



text \<open>Tool declarations in the two shapes the extractors read.\<close>

definition named_tool :: "string \<Rightarrow> tool_def" where
  "named_tool n = \<lparr>def_name = Some n, def_type = None, def_function = None\<rparr>"


text \<open>
  Requests: a continuation that needs no tool, and a new chat; a writer on which nothing
  has been written and no call rejects.
\<close>

definition hello_request :: request where
  "hello_request = \<lparr>req_input = Text ''hello'', req_tools = [],
      previous_response_id = Some ''resp_1'', memories = None\<rparr>"

definition roster_request :: request where
  "roster_request = \<lparr>req_input = Text ''Show me the Yankees roster'', req_tools = [],
      previous_response_id = None, memories = None\<rparr>"

definition fresh_writer :: writer where
  "fresh_writer = \<lparr>emitted = [], write_calls = 0, write_rejects = (\<lambda>n. False),
                    close_calls = 0, close_rejects = False\<rparr>"

text \<open>
  Two streaming runs on a fresh writer: one whose resolver call fails at the backend, and
  one without tools.
\<close>

definition astros_stream :: "(exn + unit) \<times> writer \<times> nat world" where
  "astros_stream =
     processStreamingRequest demo_runtime (Text ''Show me the Astros roster'')
       [named_tool ''resolve_team'', named_tool ''get_team_roster'']
       (fresh_writer, demo_world two_tier_cache)"

definition hello_stream :: "(exn + unit) \<times> writer \<times> nat world" where
  "hello_stream =
     processStreamingRequest demo_runtime (Text ''hello'') [] (fresh_writer, demo_world two_tier_cache)"

section \<open>Cache: basic facts\<close>

lemma isValid_iff: "isValid now ts ttl \<longleftrightarrow> now - ts < ttl * 1000"
proof -
  have "real_of_int (now - ts) / 1000 < real_of_int ttl
        \<longleftrightarrow> real_of_int (now - ts) < real_of_int (ttl * 1000)"
    by (simp add: field_simps)
  also have "\<dots> \<longleftrightarrow> now - ts < ttl * 1000"
    by (simp only: of_int_less_iff)
  finally show ?thesis by (simp add: isValid_def)
qed

lemmas cache_defs = get_def get_try_def setHot_def setCold_def set_cache_def set_try_def
  tier_get_def tier_put_def hot_lookup_def cold_lookup_def

lemma sorted_keys_eq:
  assumes "distinct (map fst a)" and "distinct (map fst b)" and "set a = set b"
  shows "sort (Object_keys a) = sort (Object_keys b)"
proof -
  have s: "set (map fst a) = set (map fst b)" using assms(3) by simp
  have "distinct (sort (map fst a))" and "distinct (sort (map fst b))" using assms by simp_all
  moreover have "set (sort (map fst a)) = set (sort (map fst b))" using s by simp
  ultimately show ?thesis
    unfolding Object_keys_def by (intro sorted_distinct_set_unique) simp_all
qed

section \<open>Execution and enrichment: basic facts\<close>

lemmas normalize_defs = normalizeResult_def roster_entry_def games_of_date_def
  transformMLBTeam_def transformMLBPlayer_def transformMLBGame_def array_map_def and_then_def
  read_prop_def opt_prop_def opt_toString_def opt_toLowerCase_def or_else_def nullish_def

lemmas exec_defs = executeSingleTool_def callTool_def routeToolCall_def Date_now_def
  table_lookup_def commandMap_def new_Error_def normalize_defs

lemmas demo_defs = demo_runtime_def demo_world_def demo_fetch_def demo_stringify_def
  demo_parse_def ok_response_def yankees_def roster_147_def roster_147_raw_def
  roster_147_normalized_def

lemma arg_value_set_prop: "arg_value (set_prop as k v) k' = (if k' = k then v else arg_value as k')"
  by (induction as) (auto simp: arg_value_def)

lemma required_entities:
  assumes "table_lookup toolEntityMap n = Own reqs" and "entityType \<in> set reqs"
  shows "reqs = [entityType] \<and> (entityType = ''team'' \<or> entityType = ''player'')"
  using assms by (auto simp: table_lookup_def toolEntityMap_def split: if_splits)

section \<open>The two passes: basic facts\<close>


lemma first_pass_skip:
  "\<not> is_resolver (name c) \<Longrightarrow> first_pass exec (c # cs) acc = first_pass exec cs acc"
  by (cases acc) (simp add: is_resolver_def)

lemma first_pass_step:
  assumes "is_resolver (name c)"
  shows "\<exists>x rr' w'. first_pass exec (c # cs) (res, rr, w) = first_pass exec cs (res @ [x], rr', w')
           \<and> tool x = name c \<and> captured x \<and> (\<not> success x \<longrightarrow> rr' = rr)"
proof -
  obtain out w' where ex: "exec w (name c) (arguments c) = (out, w')"
    by (cases "exec w (name c) (arguments c)")
  show ?thesis
  proof (cases out)
    case (Inl e)
    have "first_pass exec (c # cs) (res, rr, w) = first_pass exec cs (res @ [failed (name c) e], rr, w')"
      using assms ex Inl by (simp add: is_resolver_def)
    then show ?thesis
      by (intro exI[of _ "failed (name c) e"] exI[of _ rr] exI[of _ w'])
         (simp add: failed_def captured_def)
  next
    case (Inr r)
    let ?rr = "(if truthy r \<and> truthy (get_prop r ''id'')
                then rr((if name c = ''resolve_team'' then ''team'' else ''player'') \<mapsto> r)
                else rr)"
    have "first_pass exec (c # cs) (res, rr, w)
            = first_pass exec cs (res @ [succeeded (name c) r None], ?rr, w')"
      using assms ex Inr by (simp add: is_resolver_def)
    then show ?thesis
      by (intro exI[of _ "succeeded (name c) r None"] exI[of _ ?rr] exI[of _ w'])
         (simp add: succeeded_def captured_def)
  qed
qed

lemma first_pass_extends:
  "\<exists>ext. fst (first_pass exec cs (res, rr, w)) = res @ ext
        \<and> map tool ext = filter is_resolver (map name cs)
        \<and> list_all captured ext
        \<and> (list_all (\<lambda>r. \<not> success r) ext \<longrightarrow> fst (snd (first_pass exec cs (res, rr, w))) = rr)"
proof (induction cs arbitrary: res rr w)
  case Nil
  then show ?case by simp
next
  case (Cons c cs)
  show ?case
  proof (cases "is_resolver (name c)")
    case False
    show ?thesis
      unfolding first_pass_skip[OF False] using Cons.IH[of res rr w] False by simp
  next
    case True
    from first_pass_step[OF True, of exec cs res rr w] obtain x rr' w' where
      x: "first_pass exec (c # cs) (res, rr, w) = first_pass exec cs (res @ [x], rr', w')"
         "tool x = name c" "captured x" "\<not> success x \<longrightarrow> rr' = rr" by blast
    from Cons.IH[of "res @ [x]" rr' w'] obtain ext where
      e: "fst (first_pass exec cs (res @ [x], rr', w')) = (res @ [x]) @ ext"
         "map tool ext = filter is_resolver (map name cs)" "list_all captured ext"
         "list_all (\<lambda>r. \<not> success r) ext \<longrightarrow> fst (snd (first_pass exec cs (res @ [x], rr', w'))) = rr'"
      by blast
    show ?thesis
      unfolding x(1) using e x(2-4) True
      by (intro exI[of _ "x # ext"]) auto
  qed
qed

lemma second_pass_skip:
  "is_resolver (name c) \<Longrightarrow> second_pass exec rr (c # cs) acc = second_pass exec rr cs acc"
  by (cases acc) (auto simp: is_resolver_def)

lemma second_pass_step:
  assumes "\<not> is_resolver (name c)"
  shows "\<exists>x w'. second_pass exec rr (c # cs) (res, w) = second_pass exec rr cs (res @ [x], w')
                  \<and> tool x = name c \<and> captured x"
  using assms
  by (auto simp: is_resolver_def succeeded_def failed_def captured_def split: sum.splits prod.splits)

lemma second_pass_extends:
  "\<exists>ext. fst (second_pass exec rr cs (res, w)) = res @ ext
        \<and> map tool ext = filter (\<lambda>n. \<not> is_resolver n) (map name cs)
        \<and> list_all captured ext"
proof (induction cs arbitrary: res w)
  case Nil
  then show ?case by simp
next
  case (Cons c cs)
  show ?case
  proof (cases "is_resolver (name c)")
    case True
    show ?thesis
      unfolding second_pass_skip[OF True] using Cons.IH[of res w] True by simp
  next
    case False
    from second_pass_step[OF False, of exec rr cs res w] obtain x w' where
      x: "second_pass exec rr (c # cs) (res, w) = second_pass exec rr cs (res @ [x], w')"
         "tool x = name c" "captured x" by blast
    from Cons.IH[of "res @ [x]" w'] obtain ext where
      e: "fst (second_pass exec rr cs (res @ [x], w')) = (res @ [x]) @ ext"
         "map tool ext = filter (\<lambda>n. \<not> is_resolver n) (map name cs)" "list_all captured ext"
      by blast
    show ?thesis
      unfolding x(1) using e x(2-3) False
      by (intro exI[of _ "x # ext"]) simp
  qed
qed

section \<open>Observed runs: basic facts\<close>










section \<open>Extraction: basic facts\<close>





section \<open>Token estimate: basic facts\<close>

lemma ceiling_quarter: "nat \<lceil>real n / 4\<rceil> = (n + 3) div 4"
proof -
  have "\<lceil>real n / 4\<rceil> = \<lceil>of_int (int n) / (of_int 4 :: real)\<rceil>" by simp
  also have "\<dots> = - (- int n div 4)" by (rule ceiling_divide_eq_div)
  also have "\<dots> = int ((n + 3) div 4)" by (simp add: zdiv_int)
  finally show ?thesis by simp
qed

lemma estimateTokens_Text: "estimateTokens (Text s) = (length s + 3) div 4"
  by (simp add: estimateTokens_def ceiling_quarter)

lemma estimateTokens_Messages: "estimateTokens (Messages ms) = (length ms + 3) div 4"
  by (simp add: estimateTokens_def ceiling_quarter)

text \<open>
  On the path with tool calls the response reports the estimate of its own output text,
  and the total is always the sum of the two counts.
\<close>

lemma tool_path_usage:
  assumes "extractToolCalls rt
             (processInputWithMemories (req_input req) (memories req) (previous_response_id req))
             (req_tools req) = Inr toolCalls"
      and "toolCalls \<noteq> []"
      and "processResponsesAPIRequest rt req w = (Inr resp, w')"
  shows "output_tokens (response_usage resp) = estimateTokens (Text (output_text resp))
         \<and> total_tokens (response_usage resp)
             = input_tokens (response_usage resp) + output_tokens (response_usage resp)"
  using assms
  by (auto simp: processResponsesAPIRequest_def Let_def split: prod.splits)

section \<open>Streaming: what the loops write\<close>

lemma writer_write_facts:
  assumes "writer_write wr ev = (r, wr')"
  shows "close_calls wr' = close_calls wr"
    and "emitted wr' = emitted wr @ (if r = Inr () then [ev] else [])"
  using assms by (auto simp: writer_write_def split: if_splits)

lemma write_words_facts:
  assumes "write_words wr ws = (r, wr')"
  shows "close_calls wr' = close_calls wr
         \<and> (\<exists>ds. emitted wr' = emitted wr @ ds \<and> list_all (\<lambda>ev. \<not> is_terminal ev) ds)"
  using assms
proof (induction ws arbitrary: wr)
  case Nil
  then show ?case by simp
next
  case (Cons word rest)
  obtain r1 wr1 where w1: "writer_write wr (output_text_delta (word @ '' '')) = (r1, wr1)"
    by (cases "writer_write wr (output_text_delta (word @ '' ''))")
  note f = writer_write_facts[OF w1]
  show ?case
  proof (cases r1)
    case (Inl e)
    with Cons.prems w1 have "wr' = wr1" by simp
    with f Inl show ?thesis by simp
  next
    case (Inr u)
    with Cons.prems w1 have "write_words wr1 rest = (r, wr')" by simp
    from Cons.IH[OF this] obtain ds where
      "close_calls wr' = close_calls wr1" "emitted wr' = emitted wr1 @ ds"
      "list_all (\<lambda>ev. \<not> is_terminal ev) ds" by blast
    with f Inr show ?thesis by simp
  qed
qed

lemma stream_tool_calls_facts:
  assumes "stream_tool_calls rt cs (wr, w) = (r, wr', w')"
  shows "close_calls wr' = close_calls wr
         \<and> (\<exists>es. emitted wr' = emitted wr @ es \<and> list_all (\<lambda>ev. \<not> is_terminal ev) es)"
  using assms
proof (induction cs arbitrary: wr w)
  case Nil
  then show ?case by simp
next
  case (Cons c rest)
  obtain r1 wr1 where w1: "writer_write wr (tool_call_event (name c) (arguments c)) = (r1, wr1)"
    by (cases "writer_write wr (tool_call_event (name c) (arguments c))")
  note f1 = writer_write_facts[OF w1]
  show ?case
  proof (cases r1)
    case (Inl e)
    with Cons.prems w1 have "wr' = wr1" by simp
    with f1 Inl show ?thesis by simp
  next
    case u1: (Inr u)
    obtain out w1' where ex: "executeSingleTool rt w (name c) (arguments c) = (out, w1')"
      by (cases "executeSingleTool rt w (name c) (arguments c)")
    show ?thesis
    proof (cases out)
      case (Inl e)
      with Cons.prems w1 u1 ex have "wr' = wr1" by simp
      with f1 u1 show ?thesis by simp
    next
      case res: (Inr v)
      obtain r2 wr2 where w2: "writer_write wr1 (tool_result_event (name c) v) = (r2, wr2)"
        by (cases "writer_write wr1 (tool_result_event (name c) v)")
      note f2 = writer_write_facts[OF w2]
      show ?thesis
      proof (cases r2)
        case (Inl e)
        with Cons.prems w1 u1 ex res w2 have "wr' = wr2" by simp
        with f1 f2 u1 Inl show ?thesis by simp
      next
        case u2: (Inr u')
        obtain r3 wr3 where w3:
          "write_words wr2 (split (formatSingleToolResult rt (name c) v) CHR '' '') = (r3, wr3)"
          by (cases "write_words wr2 (split (formatSingleToolResult rt (name c) v) CHR '' '')")
        from write_words_facts[OF w3] obtain ds where f3:
          "close_calls wr3 = close_calls wr2" "emitted wr3 = emitted wr2 @ ds"
          "list_all (\<lambda>ev. \<not> is_terminal ev) ds" by blast
        show ?thesis
        proof (cases r3)
          case (Inl e)
          with Cons.prems w1 u1 ex res w2 u2 w3 have "wr' = wr3" by simp
          with f1 f2 f3 u1 u2 show ?thesis by simp
        next
          case (Inr u'')
          with Cons.prems w1 u1 ex res w2 u2 w3
          have "stream_tool_calls rt rest (wr3, w1') = (r, wr', w')" by simp
          from Cons.IH[OF this] obtain es where
            "close_calls wr' = close_calls wr3" "emitted wr' = emitted wr3 @ es"
            "list_all (\<lambda>ev. \<not> is_terminal ev) es" by blast
          with f1 f2 f3 u1 u2 show ?thesis by simp
        qed
      qed
    qed
  qed
qed


lemma streaming_try_facts:
  assumes "streaming_try rt inp tools (wr, w) = (r, wr', w')"
  shows "close_calls wr' = close_calls wr
         \<and> (\<exists>es. emitted wr' = emitted wr @ es @ (if r = Inr () then [response_completed] else [])
                 \<and> list_all (\<lambda>ev. \<not> is_terminal ev) es)"
proof -
  obtain r1 wr1 where w1: "writer_write wr response_created = (r1, wr1)"
    by (cases "writer_write wr response_created")
  note f1 = writer_write_facts[OF w1]
  show ?thesis
  proof (cases r1)
    case (Inl e)
    with assms w1 have "wr' = wr1" "r = Inl e" by (simp_all add: streaming_try_def)
    with f1 Inl show ?thesis by simp
  next
    case u1: (Inr u)
    obtain r2 wr2 where w2: "writer_write wr1 response_in_progress = (r2, wr2)"
      by (cases "writer_write wr1 response_in_progress")
    note f2 = writer_write_facts[OF w2]
    show ?thesis
    proof (cases r2)
      case (Inl e)
      with assms w1 u1 w2 have "wr' = wr2" "r = Inl e" by (simp_all add: streaming_try_def)
      with f1 f2 u1 Inl show ?thesis by simp
    next
      case u2: (Inr u')
      have pre: "close_calls wr2 = close_calls wr"
        "emitted wr2 = emitted wr @ [response_created, response_in_progress]"
        using f1 f2 u1 u2 by simp_all
      show ?thesis
      proof (cases "extractToolCalls rt inp tools")
        case (Inl e)
        with assms w1 u1 w2 u2 have "wr' = wr2" "r = Inl e" by (simp_all add: streaming_try_def)
        with pre show ?thesis by simp
      next
        case calls: (Inr toolCalls)
        define body where "body =
          (if toolCalls \<noteq> [] then stream_tool_calls rt toolCalls (wr2, w)
           else (case write_words wr2 (split default_text CHR '' '') of (r, wr3) \<Rightarrow> (r, wr3, w)))"
        obtain r3 wr3 w3 where b: "body = (r3, wr3, w3)" by (cases body)
        have f3: "close_calls wr3 = close_calls wr2
           \<and> (\<exists>es. emitted wr3 = emitted wr2 @ es \<and> list_all (\<lambda>ev. \<not> is_terminal ev) es)"
        proof (cases "toolCalls \<noteq> []")
          case True
          with b have "stream_tool_calls rt toolCalls (wr2, w) = (r3, wr3, w3)"
            by (simp add: body_def)
          from stream_tool_calls_facts[OF this] show ?thesis .
        next
          case False
          with b have "write_words wr2 (split default_text CHR '' '') = (r3, wr3)"
            by (simp add: body_def split: prod.splits)
          from write_words_facts[OF this] show ?thesis .
        qed
        then obtain es where es: "close_calls wr3 = close_calls wr2"
          "emitted wr3 = emitted wr2 @ es" "list_all (\<lambda>ev. \<not> is_terminal ev) es" by blast
        have unfold: "streaming_try rt inp tools (wr, w) =
           (case body of
              (Inl e, wr3, w3) \<Rightarrow> (Inl e, wr3, w3)
            | (Inr u, wr3, w3) \<Rightarrow>
                (case writer_write wr3 response_completed of (r, wr4) \<Rightarrow> (r, wr4, w3)))"
          using w1 u1 w2 u2 calls by (simp add: streaming_try_def body_def)
        show ?thesis
        proof (cases r3)
          case (Inl e)
          with assms unfold b have "wr' = wr3" "r = Inl e" by simp_all
          with pre es show ?thesis
            by (intro conjI exI[of _ "[response_created, response_in_progress] @ es"]) simp_all
        next
          case u3: (Inr u'')
          obtain r4 wr4 where w4: "writer_write wr3 response_completed = (r4, wr4)"
            by (cases "writer_write wr3 response_completed")
          note f4 = writer_write_facts[OF w4]
          from assms unfold b u3 w4 have "wr' = wr4" "r = r4" by simp_all
          with pre es f4 show ?thesis
            by (intro conjI exI[of _ "[response_created, response_in_progress] @ es"]) simp_all
        qed
      qed
    qed
  qed
qed

lemma count_no_terminal:
  assumes "list_all (\<lambda>ev. \<not> is_terminal ev) es"
  shows "count_list es response_completed = 0" and "\<not> list_ex is_error es"
    and "filter is_error es = []"
proof -
  have a: "\<forall>ev \<in> set es. \<not> is_terminal ev" using assms by (simp add: list_all_iff)
  then have "response_completed \<notin> set es" by auto
  then show "count_list es response_completed = 0" by (simp add: count_list_0_iff)
  have b: "\<forall>ev \<in> set es. \<not> is_error ev"
  proof
    fix ev assume "ev \<in> set es"
    with a have "\<not> is_terminal ev" by blast
    then show "\<not> is_error ev" by (cases ev) simp_all
  qed
  then show "\<not> list_ex is_error es" by (simp add: list_ex_iff)
  from b show "filter is_error es = []" by (simp add: filter_empty_conv)
qed

section \<open>Enrichment\<close>

text \<open>
  Claim C1, as stated, at a call whose \<^verbatim>\<open>teamId\<close> is present and is the empty string:
  the guard \<^verbatim>\<open>!enrichedArgs.teamId\<close> holds, and the value is replaced by the resolved id.
\<close>

theorem falsy_argument_is_overwritten:
  "enrichToolArguments \<lparr>name = ''get_team_roster'', arguments = [(''teamId'', Str '''')]\<rparr>
     [''team'' \<mapsto> yankees] = Inr [(''teamId'', Str ''147'')]"
  by (simp add: enrichToolArguments_def table_lookup_def toolEntityMap_def enrich_entity_def
      yankees_def arg_value_def int_to_string_def digits.simps)

text \<open>
  Claim C1, amended. For every call of a tool and every entity type the table declares for
  it, given a resolved entity of that type with a (truthy) id: the enriched arguments bind
  \<^verbatim>\<open>teamId\<close> (\<^verbatim>\<open>playerId\<close>) to the id converted to a string when the call's own value
  for the key is absent or falsy, keep the call's own value when it is truthy, and leave
  every other key as it was.
\<close>

theorem enrich_injects_resolved_id:
  assumes req: "table_lookup toolEntityMap (name toolCall) = Own reqs" "entityType \<in> set reqs"
      and res: "resolverResults entityType = Some resolvedEntity" "truthy resolvedEntity"
               "truthy (get_prop resolvedEntity ''id'')"
               "toString (get_prop resolvedEntity ''id'') = Inr s"
  shows "\<exists>enrichedArgs. enrichToolArguments toolCall resolverResults = Inr enrichedArgs
           \<and> arg_value enrichedArgs (entity_arg_key entityType)
               = (if truthy_scalar (arg_value (arguments toolCall) (entity_arg_key entityType))
                  then arg_value (arguments toolCall) (entity_arg_key entityType)
                  else Str s)
           \<and> (\<forall>k. k \<noteq> entity_arg_key entityType
                  \<longrightarrow> arg_value enrichedArgs k = arg_value (arguments toolCall) k)"
proof -
  from required_entities[OF req] have reqs: "reqs = [entityType]"
    and et: "entityType = ''team'' \<or> entityType = ''player''" by simp_all
  show ?thesis
    using et res req(1) unfolding reqs
    by (auto simp: enrichToolArguments_def enrich_entity_def entity_arg_key_def arg_value_set_prop)
qed

text \<open>
  The team resolves to id 147: an empty call gets \<^verbatim>\<open>teamId: "147"\<close>, a call with
  \<^verbatim>\<open>teamId: "999"\<close> keeps it.
\<close>

theorem enrich_injects_resolved_id_witness:
  "(\<exists>enrichedArgs.
      enrichToolArguments \<lparr>name = ''get_team_roster'', arguments = []\<rparr> [''team'' \<mapsto> yankees]
        = Inr enrichedArgs
      \<and> arg_value enrichedArgs ''teamId'' = Str ''147'')
   \<and> (\<exists>enrichedArgs.
      enrichToolArguments \<lparr>name = ''get_team_roster'', arguments = [(''teamId'', Str ''999'')]\<rparr>
        [''team'' \<mapsto> yankees] = Inr enrichedArgs
      \<and> arg_value enrichedArgs ''teamId'' = Str ''999'')"
proof -
  have 1: "table_lookup toolEntityMap (name \<lparr>name = ''get_team_roster'', arguments = a\<rparr>)
             = Own [''team'']" for a :: args
    by (simp add: table_lookup_def toolEntityMap_def)
  have 2: "''team'' \<in> set [''team'']" by simp
  have 3: "[''team'' \<mapsto> yankees] ''team'' = Some yankees" by simp
  have 4: "truthy yankees" "truthy (get_prop yankees ''id'')"
    "toString (get_prop yankees ''id'') = Inr ''147''"
    by (simp_all add: yankees_def int_to_string_def digits.simps)
  have a: "\<exists>enrichedArgs.
      enrichToolArguments \<lparr>name = ''get_team_roster'', arguments = []\<rparr> [''team'' \<mapsto> yankees]
        = Inr enrichedArgs
      \<and> arg_value enrichedArgs ''teamId'' = Str ''147''"
    using enrich_injects_resolved_id
      [where toolCall = "\<lparr>name = ''get_team_roster'', arguments = []\<rparr>"
         and resolverResults = "[''team'' \<mapsto> yankees]", OF 1 2 3 4]
    by (auto simp: entity_arg_key_def arg_value_def)
  have b: "\<exists>enrichedArgs.
      enrichToolArguments \<lparr>name = ''get_team_roster'', arguments = [(''teamId'', Str ''999'')]\<rparr>
        [''team'' \<mapsto> yankees] = Inr enrichedArgs
      \<and> arg_value enrichedArgs ''teamId'' = Str ''999''"
    using enrich_injects_resolved_id
      [where toolCall = "\<lparr>name = ''get_team_roster'', arguments = [(''teamId'', Str ''999'')]\<rparr>"
         and resolverResults = "[''team'' \<mapsto> yankees]", OF 1 2 3 4]
    by (auto simp: entity_arg_key_def arg_value_def)
  from a b show ?thesis by blast
qed

section \<open>Order of the results\<close>

text \<open>
  Claim C2. For every list of tool calls, the results of \<^verbatim>\<open>_processToolCalls\<close> are the
  results of the resolver calls, in the order of the input, followed by the results of
  the other calls, in the order of the input, however the two kinds are interleaved.
\<close>

theorem resolver_results_first:
  "map tool (fst (processToolCalls rt toolCalls w))
     = filter is_resolver (map name toolCalls) @ filter (\<lambda>n. \<not> is_resolver n) (map name toolCalls)"
proof -
  obtain res1 rr w1 where fp: "first_pass (executeSingleTool rt) toolCalls ([], Map.empty, w) = (res1, rr, w1)"
    by (cases "first_pass (executeSingleTool rt) toolCalls ([], Map.empty, w)")
  from first_pass_extends[of "executeSingleTool rt" toolCalls "[]" Map.empty w] fp
  have 1: "map tool res1 = filter is_resolver (map name toolCalls)" by auto
  from second_pass_extends[of "executeSingleTool rt" rr toolCalls res1 w1] obtain ext where
    "fst (second_pass (executeSingleTool rt) rr toolCalls (res1, w1)) = res1 @ ext"
    "map tool ext = filter (\<lambda>n. \<not> is_resolver n) (map name toolCalls)" by blast
  with 1 fp show ?thesis by (simp add: processToolCalls_def processToolCalls_with_def)
qed

text \<open>The roster call is issued before the resolver; its result comes second.\<close>

theorem resolver_results_first_witness:
  "map tool (fst (processToolCalls demo_runtime interleaved_calls (demo_world two_tier_cache)))
     = [''resolve_team'', ''get_team_roster'']"
  using resolver_results_first[of demo_runtime interleaved_calls "demo_world two_tier_cache"]
  by (simp add: interleaved_calls_def is_resolver_def)

section \<open>Failures of single calls\<close>


section \<open>Cache keys\<close>

text \<open>
  Claim C4. For every tool name and every two argument mappings with unique keys that
  hold the same key/value pairs, whatever the order the keys were inserted in, the derived
  cache key is the same.
\<close>

theorem generateKey_order_independent:
  assumes "distinct (map fst a)" and "distinct (map fst b)" and "set a = set b"
  shows "generateKey tool_name a = generateKey tool_name b"
proof -
  have "map_of a = map_of b" using assms by (simp add: map_of_inject_set)
  then have "arg_value a = arg_value b" by (simp add: arg_value_def fun_eq_iff)
  with sorted_keys_eq[OF assms] show ?thesis by (simp add: generateKey_def)
qed

theorem generateKey_order_independent_witness:
  "generateKey ''get_team_info'' [(''teamId'', Str ''147''), (''season'', Str ''2025'')]
     = generateKey ''get_team_info'' [(''season'', Str ''2025''), (''teamId'', Str ''147'')]
   \<and> generateKey ''get_team_info'' [(''season'', Str ''2025''), (''teamId'', Str ''147'')]
     = ''sports:get_team_info:season:2025|teamId:147''"
proof
  show "generateKey ''get_team_info'' [(''teamId'', Str ''147''), (''season'', Str ''2025'')]
     = generateKey ''get_team_info'' [(''season'', Str ''2025''), (''teamId'', Str ''147'')]"
    by (rule generateKey_order_independent) auto
  show "generateKey ''get_team_info'' [(''season'', Str ''2025''), (''teamId'', Str ''147'')]
     = ''sports:get_team_info:season:2025|teamId:147''"
    by code_simp
qed

section \<open>Promotion from the cold tier\<close>




section \<open>Expiry of hot entries\<close>

text \<open>
  Claim C6. A hot entry written at time \<open>T\<close> (its timestamp) is not served once
  \<open>hotTTL\<close> seconds have passed: a \<^verbatim>\<open>get\<close> at any \<open>now\<close> with
  \<open>T + hotTTL * 1000 \<le> now\<close> milliseconds, in particular at \<open>hotTTL + 1\<close> seconds after
  \<open>T\<close>, returns nothing from the hot tier, and returns absent when the cold tier has no
  valid entry for the key.
\<close>

theorem hot_entry_expires:
  assumes hot: "hot_lookup cm (generateKey tool_name as) = Some h"
      and late: "timestamp h + hotTTL cm * 1000 \<le> now"
  shows "(\<forall>hit. fst (get cm now tool_name as) = Some hit \<longrightarrow> source hit = cold) \<and>
         ((\<forall>c. cold_lookup cm (generateKey tool_name as) = Some c
                \<longrightarrow> \<not> isValid now (timestamp c) (coldTTL cm))
          \<longrightarrow> fst (get cm now tool_name as) = None)"
proof -
  have inv: "\<not> isValid now (timestamp h) (hotTTL cm)"
    using late by (simp add: isValid_iff)
  show ?thesis
    using hot inv
    by (auto simp: cache_defs Let_def split: option.splits sum.splits if_splits)
qed

text \<open>
  The entry is written by \<^verbatim>\<open>set\<close> at time 5000 with \<open>hotTTL = 10\<close> and no cold tier;
  the \<^verbatim>\<open>get\<close> comes 11 seconds later.
\<close>

theorem hot_entry_expires_witness:
  "fst (set_cache hot_only_cache 5000 ''get_standings'' [] (Prim (Str ''standings''))) = True
   \<and> hot_lookup (snd (set_cache hot_only_cache 5000 ''get_standings'' [] (Prim (Str ''standings''))))
        (generateKey ''get_standings'' [])
      = Some \<lparr>payload = Prim (Str ''standings''), timestamp = 5000\<rparr>
   \<and> fst (get (snd (set_cache hot_only_cache 5000 ''get_standings'' [] (Prim (Str ''standings''))))
           (5000 + (10 + 1) * 1000) ''get_standings'' []) = None"
proof -
  let ?cm = "snd (set_cache hot_only_cache 5000 ''get_standings'' [] (Prim (Str ''standings'')))"
  have w: "hot_lookup ?cm (generateKey ''get_standings'' [])
      = Some \<lparr>payload = Prim (Str ''standings''), timestamp = 5000\<rparr>"
    by (simp add: cache_defs hot_only_cache_def empty_tier_def Let_def)
  have t: "hotTTL ?cm = 10"
    by (simp add: cache_defs hot_only_cache_def empty_tier_def Let_def)
  have c: "cold_lookup ?cm (generateKey ''get_standings'' []) = None"
    by (simp add: cache_defs hot_only_cache_def empty_tier_def Let_def)
  have "fst (get ?cm (5000 + (10 + 1) * 1000) ''get_standings'' []) = None"
    using hot_entry_expires[OF w, of "5000 + (10 + 1) * 1000"] t c by simp
  moreover have "fst (set_cache hot_only_cache 5000 ''get_standings'' [] (Prim (Str ''standings''))) = True"
    by (simp add: cache_defs hot_only_cache_def empty_tier_def Let_def)
  ultimately show ?thesis using w by simp
qed

section \<open>Termination of a stream\<close>

text \<open>
  Claim C7. For every streaming run on a writer that has written nothing and has not been
  closed, whatever the input, the tools, the backend and the writes that reject:
  \<^verbatim>\<open>close\<close> is called exactly once; \<^verbatim>\<open>completed\<close> is emitted exactly once when the
  \<^verbatim>\<open>try\<close> block ends without an exception, as the last event and with no \<^verbatim>\<open>error\<close>
  event, and is never emitted otherwise; a run that emits an \<^verbatim>\<open>error\<close> event emits no
  \<^verbatim>\<open>completed\<close> event, the \<^verbatim>\<open>error\<close> event is its last event, and there is at most one.
\<close>

theorem stream_terminates_once:
  assumes fresh: "emitted wr = []" "close_calls wr = 0"
      and run: "processStreamingRequest rt inp tools (wr, w) = (r, wr', w')"
  shows "close_calls wr' = 1
         \<and> count_list (emitted wr') response_completed
             = (if fst (streaming_try rt inp tools (wr, w)) = Inr () then 1 else 0)
         \<and> (fst (streaming_try rt inp tools (wr, w)) = Inr ()
              \<longrightarrow> last (emitted wr') = response_completed \<and> \<not> list_ex is_error (emitted wr'))
         \<and> (list_ex is_error (emitted wr')
              \<longrightarrow> count_list (emitted wr') response_completed = 0
                  \<and> is_error (last (emitted wr')))
         \<and> length (filter is_error (emitted wr')) \<le> 1"
proof -
  obtain r1 wr1 w1 where t: "streaming_try rt inp tools (wr, w) = (r1, wr1, w1)"
    by (cases "streaming_try rt inp tools (wr, w)")
  from streaming_try_facts[OF t] fresh obtain es where
    c1: "close_calls wr1 = 0"
    and e1: "emitted wr1 = es @ (if r1 = Inr () then [response_completed] else [])"
    and p: "list_all (\<lambda>ev. \<not> is_terminal ev) es" by auto
  note n = count_no_terminal[OF p]
  show ?thesis
  proof (cases r1)
    case (Inr u)
    obtain r2 wr2 where cl: "writer_close wr1 = (r2, wr2)" by (cases "writer_close wr1")
    then have "close_calls wr2 = Suc (close_calls wr1)" "emitted wr2 = emitted wr1"
      by (auto simp: writer_close_def)
    moreover from run t Inr cl have "wr' = wr2" by (simp add: processStreamingRequest_def)
    ultimately show ?thesis using t Inr c1 e1 n by simp
  next
    case (Inl e)
    obtain r2 wr2 where w2: "writer_write wr1 (response_error (message e)) = (r2, wr2)"
      by (cases "writer_write wr1 (response_error (message e))")
    note f2 = writer_write_facts[OF w2]
    obtain r3 wr3 where cl: "writer_close wr2 = (r3, wr3)" by (cases "writer_close wr2")
    then have f3: "close_calls wr3 = Suc (close_calls wr2)" "emitted wr3 = emitted wr2"
      by (auto simp: writer_close_def)
    from run t Inl w2 cl have "wr' = wr3"
      by (auto simp: processStreamingRequest_def split: sum.splits)
    then show ?thesis using t Inl c1 e1 n f2 f3 by simp
  qed
qed

text \<open>
  The resolver call for an unknown team fails: the run ends with the error event and one
  \<^verbatim>\<open>close\<close>. The run without tools ends with \<^verbatim>\<open>completed\<close> and one \<^verbatim>\<open>close\<close>.
\<close>

theorem stream_terminates_once_witness:
  "emitted (fst (snd astros_stream))
     = [response_created, response_in_progress,
        tool_call_event ''resolve_team'' [(''name'', Str ''astros'')],
        response_error ''{error:not found}'']
   \<and> close_calls (fst (snd astros_stream)) = 1
   \<and> count_list (emitted (fst (snd astros_stream))) response_completed = 0
   \<and> close_calls (fst (snd hello_stream)) = 1
   \<and> count_list (emitted (fst (snd hello_stream))) response_completed = 1
   \<and> last (emitted (fst (snd hello_stream))) = response_completed"
proof -
  have fresh: "emitted fresh_writer = []" "close_calls fresh_writer = 0"
    by (simp_all add: fresh_writer_def)
  obtain r wr' w' where a: "astros_stream = (r, wr', w')" by (cases astros_stream)
  have ev: "emitted (fst (snd astros_stream))
     = [response_created, response_in_progress,
        tool_call_event ''resolve_team'' [(''name'', Str ''astros'')],
        response_error ''{error:not found}'']"
    by code_simp
  have ev': "emitted wr' = [response_created, response_in_progress,
        tool_call_event ''resolve_team'' [(''name'', Str ''astros'')],
        response_error ''{error:not found}'']"
    using ev unfolding a by simp
  have err: "list_ex is_error (emitted wr')" unfolding ev' by simp
  from stream_terminates_once[OF fresh a[unfolded astros_stream_def]] err
  have 1: "close_calls wr' = 1" "count_list (emitted wr') response_completed = 0" by blast+
  obtain r2 wr2 w2 where h: "hello_stream = (r2, wr2, w2)" by (cases hello_stream)
  have ok: "fst (streaming_try demo_runtime (Text ''hello'') [] (fresh_writer, demo_world two_tier_cache)) = Inr ()"
    by code_simp
  from stream_terminates_once[OF fresh h[unfolded hello_stream_def]] ok
  have 2: "close_calls wr2 = 1" "count_list (emitted wr2) response_completed = 1"
    "last (emitted wr2) = response_completed" by simp_all
  show ?thesis unfolding a h using ev' 1 2 by simp
qed

section \<open>Intent and data tool\<close>



section \<open>Token usage\<close>

text \<open>
  Claim C9, on the code. A continuation request with input \<^verbatim>\<open>hello\<close> and no tools is
  answered with the greeting, 176 characters long: the estimate of the output text is 44,
  the response reports the constant 50. A new chat with the 26 characters
  \<^verbatim>\<open>Show me the Yankees roster\<close> has its input turned into a list of one message before
  the estimate is taken: the response reports 1 input token where the estimate of the text
  is 7.
\<close>

theorem output_tokens_not_estimated:
  "fst (processResponsesAPIRequest demo_runtime hello_request (demo_world two_tier_cache))
     = Inr \<lparr>output_text = greeting_text,
            response_usage = \<lparr>input_tokens = 2, output_tokens = 50, total_tokens = 52\<rparr>\<rparr>
   \<and> estimateTokens (Text greeting_text) = 44
   \<and> fst (processResponsesAPIRequest demo_runtime roster_request (demo_world two_tier_cache))
     = Inr \<lparr>output_text = default_text,
            response_usage = \<lparr>input_tokens = 1, output_tokens = 50, total_tokens = 51\<rparr>\<rparr>
   \<and> estimateTokens (Text ''Show me the Yankees roster'') = 7
   \<and> estimateTokens (Text default_text) = 44"
proof -
  have g: "generateContextualResponse (Text ''hello'') = Inr greeting_text"
    by (simp add: generateContextualResponse_def toLowerCase_def lower_char_def startsWith_def)
  have 1: "fst (processResponsesAPIRequest demo_runtime hello_request (demo_world two_tier_cache))
     = Inr \<lparr>output_text = greeting_text,
            response_usage = \<lparr>input_tokens = 2, output_tokens = 50, total_tokens = 52\<rparr>\<rparr>"
    by (simp add: processResponsesAPIRequest_def hello_request_def processInputWithMemories_def
          extractToolCalls_def g estimateTokens_Text)
  have 2: "estimateTokens (Text greeting_text) = 44"
    by (simp add: estimateTokens_Text greeting_text_def)
  have d: "generateContextualResponse
             (Messages [chat_message ''user'' ''Show me the Yankees roster'']) = Inr default_text"
    by code_simp
  have 3: "fst (processResponsesAPIRequest demo_runtime roster_request (demo_world two_tier_cache))
     = Inr \<lparr>output_text = default_text,
            response_usage = \<lparr>input_tokens = 1, output_tokens = 50, total_tokens = 51\<rparr>\<rparr>"
    by (simp add: processResponsesAPIRequest_def roster_request_def processInputWithMemories_def
          convertMemoriesToSystemMessages_def extractToolCalls_def d estimateTokens_Messages)
  have 4: "estimateTokens (Text ''Show me the Yankees roster'') = 7"
    by (simp add: estimateTokens_Text)
  have 5: "estimateTokens (Text default_text) = 44"
    by (simp add: estimateTokens_Text default_text_def)
  from 1 2 3 4 5 show ?thesis by blast
qed

section \<open>Cache write failures\<close>

text \<open>
  Claim C10. For every tool name, argument mapping and payload, \<^verbatim>\<open>set\<close> returns a
  boolean and never an error: it answers \<^verbatim>\<open>false\<close> exactly when the hot or the cold
  write rejects. And whenever the cache misses and the backend call succeeds with payload
  \<open>d\<close>, \<^verbatim>\<open>_executeSingleTool\<close> returns \<open>d\<close>, whatever the cache tiers do on the write.
\<close>

theorem cache_write_errors_are_contained:
  assumes miss: "fst (get (cache w) (clock w (ticks w)) toolName as) = None"
      and call: "callTool rt ((snd (Date_now w))\<lparr>cache := snd (get (cache w) (clock w (ticks w)) toolName as)\<rparr>) toolName as = (response, w2)"
      and ok: "\<not> isError response" "content_text response = Some txt" "JSON_parse rt txt = Inr d"
  shows "fst (set_cache cm now toolName as d) = (\<not> hot_write_rejects cm \<and> \<not> cold_write_rejects cm)
       \<and> fst (executeSingleTool rt w toolName as) = Inr d"
proof
  show "fst (set_cache cm now toolName as d) = (\<not> hot_write_rejects cm \<and> \<not> cold_write_rejects cm)"
    by (auto simp: set_cache_def set_try_def setHot_def setCold_def tier_put_def Let_def
        hot_write_rejects_def cold_write_rejects_def split: option.splits)
  obtain r cm' where g: "get (cache w) (clock w (ticks w)) toolName as = (r, cm')"
    by (cases "get (cache w) (clock w (ticks w)) toolName as")
  with miss have r: "r = None" by simp
  show "fst (executeSingleTool rt w toolName as) = Inr d"
    using g r call ok
    by (simp add: executeSingleTool_def Date_now_def split: prod.splits)
qed

text \<open>
  Both tiers reject every write: \<^verbatim>\<open>set\<close> answers \<^verbatim>\<open>false\<close>, and the resolved team
  still reaches the caller.
\<close>

theorem cache_write_errors_are_contained_witness:
  "hot_write_rejects broken_cache
   \<and> fst (set_cache broken_cache 1000 ''resolve_team'' [(''name'', Str ''yankees'')] yankees) = False
   \<and> fst (executeSingleTool demo_runtime (demo_world broken_cache)
            ''resolve_team'' [(''name'', Str ''yankees'')]) = Inr yankees"
proof -
  let ?w = "demo_world broken_cache"
  let ?as = "[(''name'', Str ''yankees'')]"
  obtain response w2 where call:
    "callTool demo_runtime ((snd (Date_now ?w))\<lparr>cache := snd (get (cache ?w) (clock ?w (ticks ?w)) ''resolve_team'' ?as)\<rparr>)
       ''resolve_team'' ?as = (response, w2)"
    by (cases "callTool demo_runtime ((snd (Date_now ?w))\<lparr>cache := snd (get (cache ?w) (clock ?w (ticks ?w)) ''resolve_team'' ?as)\<rparr>)
       ''resolve_team'' ?as")
  have resp: "response = \<lparr>content_text = Some ''{id:147,name:New York Yankees}'', isError = False\<rparr>"
    using call
    by (simp add: exec_defs demo_defs cache_defs broken_cache_def empty_tier_def Let_def arg_value_def)
  have miss: "fst (get (cache ?w) (clock ?w (ticks ?w)) ''resolve_team'' ?as) = None"
    by (simp add: demo_defs cache_defs broken_cache_def empty_tier_def Let_def)
  have ok: "\<not> isError response" "content_text response = Some ''{id:147,name:New York Yankees}''"
    "JSON_parse demo_runtime ''{id:147,name:New York Yankees}'' = Inr yankees"
    using resp by (simp_all add: demo_runtime_def demo_parse_def)
  have rej: "hot_write_rejects broken_cache"
    by (simp add: hot_write_rejects_def broken_cache_def empty_tier_def)
  show ?thesis
    using cache_write_errors_are_contained[OF miss call ok, of broken_cache 1000] rej by simp
qed

end
